theory Spec2Isabelle
  imports Complex_Main
begin

section \<open>Physical quantities\<close>

text \<open>
  The forward model in \<^verbatim>\<open>testing.py\<close> computes with values of the Python package
  \<^verbatim>\<open>quantities\<close>: a magnitude paired with a unit. Magnitudes are modelled as real
  numbers, so the theory covers the arithmetic the floating-point code approximates;
  rounding, infinities and NaN are outside the model.
\<close>

text \<open>
  Modelled from the spec: the unit system (sections 3 and 4.1) is a third-party package
  whose code is not part of the sources. A unit is described by its conversion factor to
  the SI reference unit of the same dimension and by the exponents of the seven SI base
  units. Exponents are rational because the square root of a unit halves them. Every
  unit of the package has a positive conversion factor; the properties that depend on it
  assume it.
\<close>

record dimension =
  metre :: rat
  kilogram :: rat
  second :: rat
  ampere :: rat
  kelvin :: rat
  mole :: rat
  candela :: rat

record unit =
  factor :: real
  dims :: dimension

record quantity =
  magnitude :: real
  units :: unit

text \<open>An array of quantities has one unit for all its entries.\<close>

record qarray =
  magnitudes :: "real list"
  aunits :: unit

text \<open>
  The exceptions of the code: the \<^verbatim>\<open>AssertionError\<close> of a failed assertion on the units
  of the positional arguments, which the handler of the kernel catches; the
  \<^verbatim>\<open>TypeError\<close> that the handler's own \<^verbatim>\<open>raise\<close> statement ends in; the
  \<^verbatim>\<open>ValueError\<close> of a rescaling between incompatible dimensions; the \<^verbatim>\<open>IndexError\<close>
  of an array read out of range; and the \<^verbatim>\<open>ZeroDivisionError\<close> of a division of plain
  Python numbers by zero.
\<close>

datatype error = AssertionError | TypeError | ValueError | IndexError | ZeroDivisionError

subsection \<open>Dimensions and units\<close>

definition dim_mul :: "dimension \<Rightarrow> dimension \<Rightarrow> dimension" where
  "dim_mul a b =
     \<lparr>metre = metre a + metre b, kilogram = kilogram a + kilogram b,
      second = second a + second b, ampere = ampere a + ampere b,
      kelvin = kelvin a + kelvin b, mole = mole a + mole b,
      candela = candela a + candela b\<rparr>"

definition dim_div :: "dimension \<Rightarrow> dimension \<Rightarrow> dimension" where
  "dim_div a b =
     \<lparr>metre = metre a - metre b, kilogram = kilogram a - kilogram b,
      second = second a - second b, ampere = ampere a - ampere b,
      kelvin = kelvin a - kelvin b, mole = mole a - mole b,
      candela = candela a - candela b\<rparr>"

definition dim_pow :: "dimension \<Rightarrow> rat \<Rightarrow> dimension" where
  "dim_pow a p =
     \<lparr>metre = metre a * p, kilogram = kilogram a * p,
      second = second a * p, ampere = ampere a * p,
      kelvin = kelvin a * p, mole = mole a * p,
      candela = candela a * p\<rparr>"

definition dimensionless :: dimension where
  "dimensionless =
     \<lparr>metre = 0, kilogram = 0, second = 0, ampere = 0, kelvin = 0, mole = 0, candela = 0\<rparr>"

definition unit_mul :: "unit \<Rightarrow> unit \<Rightarrow> unit" where
  "unit_mul u v = \<lparr>factor = factor u * factor v, dims = dim_mul (dims u) (dims v)\<rparr>"

definition unit_div :: "unit \<Rightarrow> unit \<Rightarrow> unit" where
  "unit_div u v = \<lparr>factor = factor u / factor v, dims = dim_div (dims u) (dims v)\<rparr>"

definition unit_sqr :: "unit \<Rightarrow> unit" where
  "unit_sqr u = \<lparr>factor = (factor u)\<^sup>2, dims = dim_pow (dims u) 2\<rparr>"

definition unit_sqrt :: "unit \<Rightarrow> unit" where
  "unit_sqrt u = \<lparr>factor = sqrt (factor u), dims = dim_pow (dims u) (1 / 2)\<rparr>"

text \<open>The SI reference unit of the same dimension, what \<^verbatim>\<open>.simplified\<close> converts to.\<close>

definition unit_simplified :: "unit \<Rightarrow> unit" where
  "unit_simplified u = \<lparr>factor = 1, dims = dims u\<rparr>"

subsection \<open>Arithmetic on quantities\<close>

text \<open>
  Modelled from the spec: the arithmetic of the unit system (section 3). Quantities of the
  same dimension and different scale are reconciled by rescaling before they are added,
  subtracted or compared; incompatible dimensions make the operation fail. Products and
  quotients combine the units.
\<close>

text \<open>
  \<^verbatim>\<open>q.rescale(u)\<close>: a quantity already in the unit \<open>u\<close> is returned as it is;
  otherwise the conversion factor is the quotient of the two reference magnitudes, and
  incompatible dimensions raise \<^verbatim>\<open>ValueError\<close>.
\<close>

definition rescale :: "quantity \<Rightarrow> unit \<Rightarrow> error + quantity" where
  "rescale q u =
     (if units q = u then Inr q
      else if dims (units q) = dims u
      then Inr \<lparr>magnitude = factor (units q) / factor u * magnitude q, units = u\<rparr>
      else Inl ValueError)"

text \<open>\<^verbatim>\<open>q.units\<close> as a quantity of magnitude 1.\<close>

definition unit_quantity :: "unit \<Rightarrow> quantity" where
  "unit_quantity u = \<lparr>magnitude = 1, units = u\<rparr>"

text \<open>
  \<^verbatim>\<open>a.units == b.units\<close> compares two quantities of magnitude 1: the right one is
  rescaled to the left one's unit (the comparison is false when that fails) and the
  magnitudes are compared.
\<close>

definition units_eq :: "unit \<Rightarrow> unit \<Rightarrow> bool" where
  "units_eq u v =
     (case rescale (unit_quantity v) u of
        Inl e \<Rightarrow> False
      | Inr w \<Rightarrow> magnitude (unit_quantity u) = magnitude w)"

definition simplified :: "quantity \<Rightarrow> quantity" where
  "simplified q =
     \<lparr>magnitude = factor (units q) / 1 * magnitude q, units = unit_simplified (units q)\<rparr>"

text \<open>Addition and subtraction rescale the right operand to the unit of the left one.\<close>

definition qadd :: "quantity \<Rightarrow> quantity \<Rightarrow> error + quantity" where
  "qadd a b =
     (case rescale b (units a) of
        Inl e \<Rightarrow> Inl e
      | Inr b' \<Rightarrow> Inr \<lparr>magnitude = magnitude a + magnitude b', units = units a\<rparr>)"

definition qsub :: "quantity \<Rightarrow> quantity \<Rightarrow> error + quantity" where
  "qsub a b =
     (case rescale b (units a) of
        Inl e \<Rightarrow> Inl e
      | Inr b' \<Rightarrow> Inr \<lparr>magnitude = magnitude a - magnitude b', units = units a\<rparr>)"

text \<open>Multiplication and division combine the units and never rescale.\<close>

definition qmul :: "quantity \<Rightarrow> quantity \<Rightarrow> quantity" where
  "qmul a b = \<lparr>magnitude = magnitude a * magnitude b, units = unit_mul (units a) (units b)\<rparr>"

definition qdiv :: "quantity \<Rightarrow> quantity \<Rightarrow> quantity" where
  "qdiv a b = \<lparr>magnitude = magnitude a / magnitude b, units = unit_div (units a) (units b)\<rparr>"

definition qneg :: "quantity \<Rightarrow> quantity" where
  "qneg a = \<lparr>magnitude = - magnitude a, units = units a\<rparr>"

definition qabs :: "quantity \<Rightarrow> quantity" where
  "qabs a = \<lparr>magnitude = \<bar>magnitude a\<bar>, units = units a\<rparr>"

definition qsqr :: "quantity \<Rightarrow> quantity" where
  "qsqr a = \<lparr>magnitude = (magnitude a)\<^sup>2, units = unit_sqr (units a)\<rparr>"

definition qsqrt :: "quantity \<Rightarrow> quantity" where
  "qsqrt a = \<lparr>magnitude = sqrt (magnitude a), units = unit_sqrt (units a)\<rparr>"

text \<open>A plain number times a quantity, and a quantity divided by a plain number.\<close>

definition scalar_mul :: "real \<Rightarrow> quantity \<Rightarrow> quantity" where
  "scalar_mul c a = \<lparr>magnitude = c * magnitude a, units = units a\<rparr>"

definition mul_scalar :: "quantity \<Rightarrow> real \<Rightarrow> quantity" where
  "mul_scalar a c = \<lparr>magnitude = magnitude a * c, units = units a\<rparr>"

definition scalar_div :: "quantity \<Rightarrow> real \<Rightarrow> quantity" where
  "scalar_div a c = \<lparr>magnitude = magnitude a / c, units = units a\<rparr>"

text \<open>The value of a quantity in the SI reference unit of its dimension.\<close>

definition si_value :: "quantity \<Rightarrow> real" where
  "si_value q = magnitude q * factor (units q)"

subsection \<open>The units the program names\<close>

definition length_dim :: dimension where
  "length_dim = dimensionless\<lparr>metre := 1\<rparr>"

definition pq_m :: unit where
  "pq_m = \<lparr>factor = 1, dims = length_dim\<rparr>"

definition pq_mm :: unit where
  "pq_mm = \<lparr>factor = 1 / 1000, dims = length_dim\<rparr>"

definition pq_A :: unit where
  "pq_A = \<lparr>factor = 1, dims = dimensionless\<lparr>ampere := 1\<rparr>\<rparr>"

definition pq_S :: unit where
  "pq_S = \<lparr>factor = 1,
           dims = dimensionless\<lparr>metre := - 2, kilogram := - 1, second := 3, ampere := 2\<rparr>\<rparr>"

definition pq_V :: unit where
  "pq_V = \<lparr>factor = 1,
           dims = dimensionless\<lparr>metre := 2, kilogram := 1, second := - 3, ampere := - 1\<rparr>\<rparr>"

section \<open>Potential kernels\<close>

text \<open>
  Each kernel starts with
  \<^verbatim>\<open>try: assert(...) except AssertionError as ae: raise ae, '...'.format(...)\<close>.
  A false condition raises \<^verbatim>\<open>AssertionError\<close> inside the \<^verbatim>\<open>try\<close> block; the result
  of the block is the exception raised in it, if any.
\<close>

definition assertion :: "bool \<Rightarrow> error option" where
  "assertion ok = (if ok then None else Some AssertionError)"

text \<open>
  The handler raises the caught instance together with a message. The \<^verbatim>\<open>raise\<close>
  statement of Python 2 refuses an exception instance that comes with a separate value:
  the statement itself raises \<^verbatim>\<open>TypeError\<close>, and that is the exception which leaves
  the kernel.
\<close>

definition reraise_with_message :: "error \<Rightarrow> error" where
  "reraise_with_message ae = TypeError"

text \<open>
  \<^verbatim>\<open>potential_of_plane(z_j, z_i, C_i, sigma)\<close>: the units of the two positions are
  asserted equal, then the function returns
  \<^verbatim>\<open>-C_i/(2*sigma)*abs(z_j-z_i).simplified\<close>, where \<^verbatim>\<open>.simplified\<close> applies to
  the absolute distance only.
\<close>

definition potential_of_plane ::
  "quantity \<Rightarrow> quantity \<Rightarrow> quantity \<Rightarrow> quantity \<Rightarrow> error + quantity" where
  "potential_of_plane z_j z_i C_i sigma =
     (case assertion (units_eq (units z_j) (units z_i)) of
        Some ae \<Rightarrow> Inl (reraise_with_message ae)
      | None \<Rightarrow>
          (case qsub z_j z_i of
             Inl e \<Rightarrow> Inl e
           | Inr d \<Rightarrow>
               Inr (qmul (qdiv (qneg C_i) (scalar_mul 2 sigma)) (simplified (qabs d)))))"

text \<open>
  \<^verbatim>\<open>potential_of_disk(z_j, z_i, C_i, R_i, sigma)\<close>: the chained comparison asserts
  \<^verbatim>\<open>z_j.units == z_i.units\<close> and \<^verbatim>\<open>z_i.units == R_i.units\<close>; the result is
  \<^verbatim>\<open>C_i/(2*sigma)*(np.sqrt((z_j-z_i)**2 + R_i**2) - abs(z_j-z_i)).simplified\<close>.
\<close>

definition potential_of_disk ::
  "quantity \<Rightarrow> quantity \<Rightarrow> quantity \<Rightarrow> quantity \<Rightarrow> quantity \<Rightarrow> error + quantity" where
  "potential_of_disk z_j z_i C_i R_i sigma =
     (case assertion (units_eq (units z_j) (units z_i) \<and> units_eq (units z_i) (units R_i)) of
        Some ae \<Rightarrow> Inl (reraise_with_message ae)
      | None \<Rightarrow>
          (case qsub z_j z_i of
             Inl e \<Rightarrow> Inl e
           | Inr d \<Rightarrow>
               (case qadd (qsqr d) (qsqr R_i) of
                  Inl e \<Rightarrow> Inl e
                | Inr s \<Rightarrow>
                    (case qsub (qsqrt s) (qabs d) of
                       Inl e \<Rightarrow> Inl e
                     | Inr t \<Rightarrow>
                         Inr (qmul (qdiv C_i (scalar_mul 2 sigma)) (simplified t))))))"

text \<open>
  \<^verbatim>\<open>potential_of_cylinder(z_j, z_i, C_i, R_i, h_i, sigma)\<close>. After the assertion on
  the units the magnitudes of \<^verbatim>\<open>sigma\<close>, \<^verbatim>\<open>R_i\<close> and \<^verbatim>\<open>z_j\<close> are taken with
  \<^verbatim>\<open>float\<close>, and the integrand is a function of plain Python numbers:
  \<^verbatim>\<open>1/(2*_sigma)\<close> raises \<^verbatim>\<open>ZeroDivisionError\<close> when \<^verbatim>\<open>_sigma\<close> is zero.
\<close>

definition integrand :: "real \<Rightarrow> real \<Rightarrow> real \<Rightarrow> real \<Rightarrow> error + real" where
  "integrand sigma' R_i' z_j' z =
     (if 2 * sigma' = 0 then Inl ZeroDivisionError
      else Inr (1 / (2 * sigma') * (sqrt ((z - z_j')\<^sup>2 + R_i'\<^sup>2) - \<bar>z - z_j'\<bar>)))"

text \<open>
  The quadrature \<^verbatim>\<open>scipy.integrate.quad\<close> is a library routine: from a function of
  plain numbers and the two limits it computes a value together with an estimate of the
  absolute error. The kernel is modelled for an arbitrary such routine.
\<close>

type_synonym quad = "(real \<Rightarrow> real) \<Rightarrow> real \<Rightarrow> real \<Rightarrow> real \<times> real"

text \<open>
  The routine evaluates the integrand, at least once, and an exception of the integrand
  leaves the routine. The integrand above raises at every point or at none, so the call
  \<^verbatim>\<open>si.quad(integrand, a, b)\<close> fails when the integrand fails at \<open>a\<close> and otherwise
  runs the routine on the values of the integrand.
\<close>

definition si_quad ::
  "quad \<Rightarrow> (real \<Rightarrow> error + real) \<Rightarrow> real \<Rightarrow> real \<Rightarrow> error + real \<times> real" where
  "si_quad quad f a b =
     (case f a of
        Inl e \<Rightarrow> Inl e
      | Inr _ \<Rightarrow> Inr (quad (\<lambda>z. case f z of Inl e \<Rightarrow> 0 | Inr y \<Rightarrow> y) a b))"

text \<open>
  \<^verbatim>\<open>phi_j, abserr = C_i*si.quad(integrand, z_i-h_i/2, z_i+h_i/2)\<close> multiplies both
  components of the pair by \<^verbatim>\<open>C_i\<close>; the function then returns
  \<^verbatim>\<open>phi_j * z_i.units**2 / sigma.units\<close> and \<^verbatim>\<open>abserr\<close> is not used again.
\<close>

definition potential_of_cylinder ::
  "quad \<Rightarrow> quantity \<Rightarrow> quantity \<Rightarrow> quantity \<Rightarrow> quantity \<Rightarrow> quantity \<Rightarrow> quantity
   \<Rightarrow> error + quantity" where
  "potential_of_cylinder quad z_j z_i C_i R_i h_i sigma =
     (case assertion (units_eq (units z_j) (units z_i) \<and> units_eq (units z_i) (units R_i)
                      \<and> units_eq (units R_i) (units h_i)) of
        Some ae \<Rightarrow> Inl (reraise_with_message ae)
      | None \<Rightarrow>
          (case qsub z_i (scalar_div h_i 2) of
             Inl e \<Rightarrow> Inl e
           | Inr a \<Rightarrow>
               (case qadd z_i (scalar_div h_i 2) of
                  Inl e \<Rightarrow> Inl e
                | Inr b \<Rightarrow>
                    (case si_quad quad
                            (integrand (magnitude sigma) (magnitude R_i) (magnitude z_j))
                            (magnitude a) (magnitude b) of
                       Inl e \<Rightarrow> Inl e
                     | Inr (val, err) \<Rightarrow>
                         (let phi_j = mul_scalar C_i val;
                              abserr = mul_scalar C_i err
                          in Inr (qdiv (qmul phi_j (qsqr (unit_quantity (units z_i))))
                                    (unit_quantity (units sigma))))))))"

text \<open>
  The default arguments of the kernels: a source at \<^verbatim>\<open>0.*pq.m\<close>, the densities
  \<^verbatim>\<open>1*pq.A/pq.m**2\<close> and \<^verbatim>\<open>1*pq.A/pq.m**3\<close>, the radius \<^verbatim>\<open>1E-3*pq.m\<close>, the
  thickness \<^verbatim>\<open>0.1*pq.m\<close> and the conductivity \<^verbatim>\<open>0.3*pq.S/pq.m\<close>.
\<close>

definition default_z_i :: quantity where
  "default_z_i = \<lparr>magnitude = 0, units = pq_m\<rparr>"

definition default_C_i :: quantity where
  "default_C_i = \<lparr>magnitude = 1, units = unit_div pq_A (unit_sqr pq_m)\<rparr>"

definition default_C_i_volume :: quantity where
  "default_C_i_volume = \<lparr>magnitude = 1, units = unit_div pq_A (unit_mul (unit_sqr pq_m) pq_m)\<rparr>"

definition default_R_i :: quantity where
  "default_R_i = \<lparr>magnitude = 1 / 1000, units = pq_m\<rparr>"

definition default_h_i :: quantity where
  "default_h_i = \<lparr>magnitude = 1 / 10, units = pq_m\<rparr>"

definition default_sigma :: quantity where
  "default_sigma = \<lparr>magnitude = 3 / 10, units = unit_div pq_S pq_m\<rparr>"

section \<open>LFP synthesizer\<close>

text \<open>
  Reading entry \<open>i\<close> of an array of quantities gives a quantity in the array's unit and
  raises \<^verbatim>\<open>IndexError\<close> out of range; iterating over the array gives its entries in
  order. Storing a quantity at an index rescales it to the array's unit first.
\<close>

definition getitem :: "qarray \<Rightarrow> nat \<Rightarrow> error + quantity" where
  "getitem a i =
     (if i < length (magnitudes a)
      then Inr \<lparr>magnitude = magnitudes a ! i, units = aunits a\<rparr>
      else Inl IndexError)"

definition setitem :: "qarray \<Rightarrow> nat \<Rightarrow> quantity \<Rightarrow> error + qarray" where
  "setitem a i v =
     (case rescale v (aunits a) of
        Inl e \<Rightarrow> Inl e
      | Inr v' \<Rightarrow>
          (if i < length (magnitudes a)
           then Inr (a\<lparr>magnitudes := (magnitudes a)[i := magnitude v']\<rparr>)
           else Inl IndexError))"

definition elements :: "qarray \<Rightarrow> quantity list" where
  "elements a = map (\<lambda>x. \<lparr>magnitude = x, units = aunits a\<rparr>) (magnitudes a)"

definition zeros :: "nat \<Rightarrow> unit \<Rightarrow> qarray" where
  "zeros n u = \<lparr>magnitudes = replicate n 0, aunits = u\<rparr>"

text \<open>
  The inner loop \<^verbatim>\<open>for j, zj in enumerate(z_j): phi_j[j] += kernel(zj, ...)\<close> for one
  source: the entry is read, the kernel is called, the sum is formed in the unit of the
  entry and stored back. The first exception ends the loop.
\<close>

fun electrode_loop ::
  "(quantity \<Rightarrow> error + quantity) \<Rightarrow> quantity list \<Rightarrow> nat \<Rightarrow> qarray \<Rightarrow> error + qarray" where
  "electrode_loop call [] j phi_j = Inr phi_j"
| "electrode_loop call (zj # zs) j phi_j =
     (case getitem phi_j j of
        Inl e \<Rightarrow> Inl e
      | Inr p \<Rightarrow>
          (case call zj of
             Inl e \<Rightarrow> Inl e
           | Inr q \<Rightarrow>
               (case qadd p q of
                  Inl e \<Rightarrow> Inl e
                | Inr s \<Rightarrow>
                    (case setitem phi_j j s of
                       Inl e \<Rightarrow> Inl e
                     | Inr phi' \<Rightarrow> electrode_loop call zs (Suc j) phi'))))"

text \<open>
  The outer loop \<^verbatim>\<open>for i, zi in enumerate(z_i)\<close>; the kernel call of the loop body takes
  the index of the source, the source position and the electrode position.
\<close>

fun source_loop ::
  "(nat \<Rightarrow> quantity \<Rightarrow> quantity \<Rightarrow> error + quantity) \<Rightarrow> quantity list \<Rightarrow> nat \<Rightarrow>
   quantity list \<Rightarrow> qarray \<Rightarrow> error + qarray" where
  "source_loop call [] i z_j phi_j = Inr phi_j"
| "source_loop call (zi # zis) i z_j phi_j =
     (case electrode_loop (call i zi) z_j 0 phi_j of
        Inl e \<Rightarrow> Inl e
      | Inr phi' \<Rightarrow> source_loop call zis (Suc i) z_j phi')"

text \<open>
  The three synthesizers share the statement
  \<^verbatim>\<open>phi_j = np.zeros(z_j.size)*pq.V\<close> and the two loops.
\<close>

definition superpose ::
  "(nat \<Rightarrow> quantity \<Rightarrow> quantity \<Rightarrow> error + quantity) \<Rightarrow> qarray \<Rightarrow> qarray \<Rightarrow> error + qarray" where
  "superpose call z_j z_i =
     source_loop call (elements z_i) 0 (elements z_j) (zeros (length (magnitudes z_j)) pq_V)"

text \<open>The call \<^verbatim>\<open>potential_of_plane(zj, zi, C_i[i], sigma)\<close> of the loop body.\<close>

definition plane_call ::
  "qarray \<Rightarrow> quantity \<Rightarrow> nat \<Rightarrow> quantity \<Rightarrow> quantity \<Rightarrow> error + quantity" where
  "plane_call C_i sigma i zi zj =
     (case getitem C_i i of
        Inl e \<Rightarrow> Inl e
      | Inr c \<Rightarrow> potential_of_plane zj zi c sigma)"

text \<open>The call \<^verbatim>\<open>potential_of_disk(zj, zi, C_i[i], R_i[i], sigma)\<close>.\<close>

definition disk_call ::
  "qarray \<Rightarrow> qarray \<Rightarrow> quantity \<Rightarrow> nat \<Rightarrow> quantity \<Rightarrow> quantity \<Rightarrow> error + quantity" where
  "disk_call C_i R_i sigma i zi zj =
     (case getitem C_i i of
        Inl e \<Rightarrow> Inl e
      | Inr c \<Rightarrow>
          (case getitem R_i i of
             Inl e \<Rightarrow> Inl e
           | Inr r \<Rightarrow> potential_of_disk zj zi c r sigma))"

text \<open>The call \<^verbatim>\<open>potential_of_cylinder(zj, zi, C_i[i], R_i[i], h_i[i], sigma)\<close>.\<close>

definition cylinder_call ::
  "quad \<Rightarrow> qarray \<Rightarrow> qarray \<Rightarrow> qarray \<Rightarrow> quantity \<Rightarrow> nat \<Rightarrow> quantity \<Rightarrow> quantity
   \<Rightarrow> error + quantity" where
  "cylinder_call quad C_i R_i h_i sigma i zi zj =
     (case getitem C_i i of
        Inl e \<Rightarrow> Inl e
      | Inr c \<Rightarrow>
          (case getitem R_i i of
             Inl e \<Rightarrow> Inl e
           | Inr r \<Rightarrow>
               (case getitem h_i i of
                  Inl e \<Rightarrow> Inl e
                | Inr h \<Rightarrow> potential_of_cylinder quad zj zi c r h sigma)))"

text \<open>
  The synthesizers return the trace together with the density array they were given.
  The diagnostic figure drawn when \<^verbatim>\<open>plot\<close> is set does not touch the two returned
  values and is not modelled.
\<close>

definition get_lfp_of_planes ::
  "qarray \<Rightarrow> qarray \<Rightarrow> qarray \<Rightarrow> quantity \<Rightarrow> error + qarray \<times> qarray" where
  "get_lfp_of_planes z_j z_i C_i sigma =
     (case superpose (plane_call C_i sigma) z_j z_i of
        Inl e \<Rightarrow> Inl e
      | Inr phi_j \<Rightarrow> Inr (phi_j, C_i))"

definition get_lfp_of_disks ::
  "qarray \<Rightarrow> qarray \<Rightarrow> qarray \<Rightarrow> qarray \<Rightarrow> quantity \<Rightarrow> error + qarray \<times> qarray" where
  "get_lfp_of_disks z_j z_i C_i R_i sigma =
     (case superpose (disk_call C_i R_i sigma) z_j z_i of
        Inl e \<Rightarrow> Inl e
      | Inr phi_j \<Rightarrow> Inr (phi_j, C_i))"

definition get_lfp_of_cylinders ::
  "quad \<Rightarrow> qarray \<Rightarrow> qarray \<Rightarrow> qarray \<Rightarrow> qarray \<Rightarrow> qarray \<Rightarrow> quantity
   \<Rightarrow> error + qarray \<times> qarray" where
  "get_lfp_of_cylinders quad z_j z_i C_i R_i h_i sigma =
     (case superpose (cylinder_call quad C_i R_i h_i sigma) z_j z_i of
        Inl e \<Rightarrow> Inl e
      | Inr phi_j \<Rightarrow> Inr (phi_j, C_i))"

section \<open>Notions used to state the properties\<close>

text \<open>
  A simple quadrature routine to run the cylinder kernel on: the midpoint rule, reporting
  a given error estimate.
\<close>

definition midpoint_rule :: "real \<Rightarrow> quad" where
  "midpoint_rule err f a b = ((b - a) * f ((a + b) / 2), err)"

text \<open>
  What \<^verbatim>\<open>phi_j[j] += r\<close> adds to an entry held in volt when the kernel call returned
  \<open>r\<close>: the magnitude of the result rescaled to volt; there is none when the call or the
  rescaling raised.
\<close>

definition volts :: "error + quantity \<Rightarrow> real option" where
  "volts r =
     (case r of
        Inl e \<Rightarrow> None
      | Inr q \<Rightarrow> (case rescale q pq_V of Inl e \<Rightarrow> None | Inr v \<Rightarrow> Some (magnitude v)))"

definition all_calls_ok ::
  "(nat \<Rightarrow> quantity \<Rightarrow> quantity \<Rightarrow> error + quantity) \<Rightarrow> qarray \<Rightarrow> qarray \<Rightarrow> bool" where
  "all_calls_ok call z_j z_i \<longleftrightarrow>
     (\<forall>i < length (magnitudes z_i). \<forall>j < length (magnitudes z_j).
        volts (call i (elements z_i ! i) (elements z_j ! j)) \<noteq> None)"

text \<open>
  The trace as the specification words it: entry \<open>j\<close> is the sum over the sources \<open>i\<close> of
  the kernel at electrode \<open>j\<close> and source \<open>i\<close>.
\<close>

definition trace_sum ::
  "(nat \<Rightarrow> quantity \<Rightarrow> quantity \<Rightarrow> error + quantity) \<Rightarrow> qarray \<Rightarrow> qarray \<Rightarrow> qarray" where
  "trace_sum call z_j z_i =
     \<lparr>magnitudes =
        map (\<lambda>j. \<Sum>i < length (magnitudes z_i).
                 the (volts (call i (elements z_i ! i) (elements z_j ! j))))
          [0 ..< length (magnitudes z_j)],
      aunits = pq_V\<rparr>"

text \<open>
  The same with the kernel named outright. Entry \<open>i\<close> of an array is a quantity in the
  unit of the array; \<open>k i j\<close> stands for the kernel at source \<open>i\<close> and electrode \<open>j\<close>, for
  \<open>N\<close> sources and \<open>M\<close> electrodes.
\<close>

definition item :: "qarray \<Rightarrow> nat \<Rightarrow> quantity" where
  "item a i = \<lparr>magnitude = magnitudes a ! i, units = aunits a\<rparr>"

definition kernel_ok :: "(nat \<Rightarrow> nat \<Rightarrow> error + quantity) \<Rightarrow> nat \<Rightarrow> nat \<Rightarrow> bool" where
  "kernel_ok k M N \<longleftrightarrow> (\<forall>i < N. \<forall>j < M. volts (k i j) \<noteq> None)"

definition kernel_trace :: "(nat \<Rightarrow> nat \<Rightarrow> error + quantity) \<Rightarrow> nat \<Rightarrow> nat \<Rightarrow> qarray" where
  "kernel_trace k M N =
     \<lparr>magnitudes = map (\<lambda>j. \<Sum>i < N. the (volts (k i j))) [0 ..< M], aunits = pq_V\<rparr>"

text \<open>Two arrays in the same unit one after the other, and the entrywise sum of two traces.\<close>

definition concatenate :: "qarray \<Rightarrow> qarray \<Rightarrow> qarray" where
  "concatenate a b = \<lparr>magnitudes = magnitudes a @ magnitudes b, aunits = aunits a\<rparr>"

definition elementwise_add :: "qarray \<Rightarrow> qarray \<Rightarrow> qarray" where
  "elementwise_add a b =
     \<lparr>magnitudes = map2 (+) (magnitudes a) (magnitudes b), aunits = aunits a\<rparr>"

text \<open>
  A small scenario to run the synthesizers on: two electrodes at 0 and 4 mm, a source
  list with one source at 0 mm and a second list with one source at 4 mm, with areal and
  volume densities 1 and -1, radius 3 mm and thickness 0.1 mm.
\<close>

definition ex_z_j :: qarray where
  "ex_z_j = \<lparr>magnitudes = [0, 4], aunits = pq_mm\<rparr>"

definition ex_z_1 :: qarray where
  "ex_z_1 = \<lparr>magnitudes = [0], aunits = pq_mm\<rparr>"

definition ex_z_2 :: qarray where
  "ex_z_2 = \<lparr>magnitudes = [4], aunits = pq_mm\<rparr>"

definition ex_C_1 :: qarray where
  "ex_C_1 = \<lparr>magnitudes = [1], aunits = unit_div pq_A (unit_sqr pq_m)\<rparr>"

definition ex_C_2 :: qarray where
  "ex_C_2 = \<lparr>magnitudes = [- 1], aunits = unit_div pq_A (unit_sqr pq_m)\<rparr>"

definition ex_Cv_1 :: qarray where
  "ex_Cv_1 = \<lparr>magnitudes = [1], aunits = unit_div pq_A (unit_mul (unit_sqr pq_m) pq_m)\<rparr>"

definition ex_Cv_2 :: qarray where
  "ex_Cv_2 = \<lparr>magnitudes = [- 1], aunits = unit_div pq_A (unit_mul (unit_sqr pq_m) pq_m)\<rparr>"

definition ex_R :: qarray where
  "ex_R = \<lparr>magnitudes = [3], aunits = pq_mm\<rparr>"

definition ex_h :: qarray where
  "ex_h = \<lparr>magnitudes = [1 / 10], aunits = pq_mm\<rparr>"

section \<open>Properties of the unit system\<close>

lemma units_eq_iff: "units_eq u v \<longleftrightarrow> v = u"
  by (cases u, cases v) (auto simp: units_eq_def rescale_def unit_quantity_def)

lemma rescale_same: "units q = u \<Longrightarrow> rescale q u = Inr q"
  by (simp add: rescale_def)

lemma qsub_same:
  "units b = units a \<Longrightarrow>
   qsub a b = Inr \<lparr>magnitude = magnitude a - magnitude b, units = units a\<rparr>"
  by (simp add: qsub_def rescale_same)

lemma qadd_same:
  "units b = units a \<Longrightarrow>
   qadd a b = Inr \<lparr>magnitude = magnitude a + magnitude b, units = units a\<rparr>"
  by (simp add: qadd_def rescale_same)

lemmas unit_defs = pq_mm_def pq_V_def pq_A_def pq_S_def pq_m_def
      unit_mul_def unit_div_def unit_sqr_def unit_sqrt_def unit_simplified_def dim_mul_def dim_div_def dim_pow_def
      length_dim_def dimensionless_def

section \<open>The plane kernel\<close>

lemma si_abs_diff: "0 < f \<Longrightarrow> \<bar>a * f - b * f\<bar> = f * \<bar>a - b\<bar>" for f :: real
  by (simp add: abs_mult flip: left_diff_distrib)

lemma plane_same_units:
  "units z_j = units z_i \<Longrightarrow>
   potential_of_plane z_j z_i C_i sigma =
     Inr \<lparr>magnitude = - magnitude C_i / (2 * magnitude sigma)
                         * (factor (units z_i) * \<bar>magnitude z_j - magnitude z_i\<bar>),
          units = unit_mul (unit_div (units C_i) (units sigma)) (unit_simplified (units z_i))\<rparr>"
  by (simp add: potential_of_plane_def assertion_def units_eq_iff qsub_same qmul_def qdiv_def qneg_def
      scalar_mul_def simplified_def qabs_def)

text \<open>
  Claim C3. For positions \<open>z_j\<close> and \<open>z_i\<close> in the same length unit and any density and
  conductivity, \<open>potential_of_plane\<close> returns a potential: its magnitude is
  \<open>- C_i / (2 sigma)\<close> times the distance \<open>\<bar>z_j - z_i\<bar>\<close> expressed in the SI reference
  unit, its unit is the density unit over the conductivity unit times the reference
  length unit, and its SI value is \<open>- C_i / (2 sigma) * \<bar>z_j - z_i\<bar>\<close> of the SI values of
  the arguments. The potential is 0 when the field point is on the source plane.
\<close>

theorem potential_of_plane_formula:
  assumes "units z_j = units z_i" and "0 < factor (units z_i)"
  shows "\<exists>phi. potential_of_plane z_j z_i C_i sigma = Inr phi
     \<and> magnitude phi = - magnitude C_i / (2 * magnitude sigma)
                         * (factor (units z_i) * \<bar>magnitude z_j - magnitude z_i\<bar>)
     \<and> units phi = unit_mul (unit_div (units C_i) (units sigma)) (unit_simplified (units z_i))
     \<and> si_value phi = - si_value C_i / (2 * si_value sigma) * \<bar>si_value z_j - si_value z_i\<bar>
     \<and> (magnitude z_j = magnitude z_i \<longrightarrow> magnitude phi = 0)"
proof -
  let ?f = "factor (units z_i)"
  have "\<bar>si_value z_j - si_value z_i\<bar> = ?f * \<bar>magnitude z_j - magnitude z_i\<bar>"
    using assms by (simp add: si_value_def si_abs_diff)
  then show ?thesis
    using assms(1)
    by (simp add: plane_same_units si_value_def unit_mul_def unit_div_def unit_simplified_def
        mult_ac)
qed

theorem potential_of_plane_formula_witness:
  "units \<lparr>magnitude = 2, units = pq_mm\<rparr> = units \<lparr>magnitude = 5, units = pq_mm\<rparr>
   \<and> 0 < factor (units \<lparr>magnitude = 5, units = pq_mm\<rparr>)
   \<and> (\<exists>phi. potential_of_plane \<lparr>magnitude = 2, units = pq_mm\<rparr>
               \<lparr>magnitude = 5, units = pq_mm\<rparr> default_C_i default_sigma = Inr phi
          \<and> magnitude phi = - (1 / 200) \<and> units phi = pq_V \<and> si_value phi = - (1 / 200))"
  using potential_of_plane_formula [of "\<lparr>magnitude = 2, units = pq_mm\<rparr>"
      "\<lparr>magnitude = 5, units = pq_mm\<rparr>" default_C_i default_sigma]
  by (auto simp: default_C_i_def default_sigma_def unit_defs si_value_def)

section \<open>The disk kernel\<close>

lemma sqrt_scaled: "0 < f \<Longrightarrow> sqrt ((a * f - b * f)\<^sup>2 + (r * f)\<^sup>2) = f * sqrt ((a - b)\<^sup>2 + r\<^sup>2)"
  for f :: real
proof -
  assume f: "0 < f"
  have "(a * f - b * f)\<^sup>2 + (r * f)\<^sup>2 = f\<^sup>2 * ((a - b)\<^sup>2 + r\<^sup>2)"
    by (simp add: power2_eq_square algebra_simps)
  then show ?thesis
    using f by (simp add: real_sqrt_mult)
qed

lemma si_scale:
  "c / (2 * s) * y * (fc / fs * 1) = c * fc / (2 * (s * fs)) * y" for c :: real
  by (simp add: mult_ac)

lemma disk_same_units:
  assumes "units z_j = units z_i" and "units R_i = units z_i" and "0 < factor (units z_i)"
  shows "potential_of_disk z_j z_i C_i R_i sigma =
     Inr \<lparr>magnitude = magnitude C_i / (2 * magnitude sigma)
                         * (factor (units z_i)
                            * (sqrt ((magnitude z_j - magnitude z_i)\<^sup>2 + (magnitude R_i)\<^sup>2)
                               - \<bar>magnitude z_j - magnitude z_i\<bar>)),
          units = unit_mul (unit_div (units C_i) (units sigma)) (unit_simplified (units z_i))\<rparr>"
proof -
  let ?u = "units z_i"
  have root: "unit_sqrt (unit_sqr ?u) = ?u"
    using assms(3) by (cases ?u) (simp add: unit_sqrt_def unit_sqr_def dim_pow_def)
  show ?thesis
    using assms(1,2)
    by (simp add: potential_of_disk_def assertion_def units_eq_iff qsub_same qadd_same qsqr_def qsqrt_def
        qabs_def root qmul_def qdiv_def scalar_mul_def simplified_def unit_simplified_def)
qed

text \<open>
  Claim C4. For positions \<open>z_j\<close>, \<open>z_i\<close> and a radius \<open>R_i\<close> in the same length unit and any
  density and conductivity, \<open>potential_of_disk\<close> returns the potential
  \<open>C_i / (2 sigma) * (sqrt ((z_j - z_i)\<^sup>2 + R_i\<^sup>2) - \<bar>z_j - z_i\<bar>)\<close>: the bracket is
  expressed in the SI reference length unit, and the SI value of the result is the formula
  on the SI values of the arguments.
\<close>

theorem potential_of_disk_formula:
  assumes "units z_j = units z_i" and "units R_i = units z_i" and "0 < factor (units z_i)"
  shows "\<exists>phi. potential_of_disk z_j z_i C_i R_i sigma = Inr phi
     \<and> magnitude phi = magnitude C_i / (2 * magnitude sigma)
                         * (factor (units z_i)
                            * (sqrt ((magnitude z_j - magnitude z_i)\<^sup>2 + (magnitude R_i)\<^sup>2)
                               - \<bar>magnitude z_j - magnitude z_i\<bar>))
     \<and> units phi = unit_mul (unit_div (units C_i) (units sigma)) (unit_simplified (units z_i))
     \<and> si_value phi = si_value C_i / (2 * si_value sigma)
                         * (sqrt ((si_value z_j - si_value z_i)\<^sup>2 + (si_value R_i)\<^sup>2)
                            - \<bar>si_value z_j - si_value z_i\<bar>)"
proof -
  let ?f = "factor (units z_i)"
  have a: "\<bar>si_value z_j - si_value z_i\<bar> = ?f * \<bar>magnitude z_j - magnitude z_i\<bar>"
    using assms by (simp add: si_value_def si_abs_diff)
  have b: "sqrt ((si_value z_j - si_value z_i)\<^sup>2 + (si_value R_i)\<^sup>2)
           = ?f * sqrt ((magnitude z_j - magnitude z_i)\<^sup>2 + (magnitude R_i)\<^sup>2)"
    using assms by (simp add: si_value_def sqrt_scaled)
  show ?thesis
    unfolding a b
    using si_scale [of "magnitude C_i" "magnitude sigma" _ "factor (units C_i)" "factor (units sigma)"]
    by (simp add: disk_same_units [OF assms] unit_mul_def unit_div_def
        unit_simplified_def si_value_def flip: right_diff_distrib)
qed

theorem potential_of_disk_formula_witness:
  "units \<lparr>magnitude = 4, units = pq_mm\<rparr> = units \<lparr>magnitude = 0, units = pq_mm\<rparr>
   \<and> units \<lparr>magnitude = 3, units = pq_mm\<rparr> = units \<lparr>magnitude = 0, units = pq_mm\<rparr>
   \<and> 0 < factor (units \<lparr>magnitude = 0, units = pq_mm\<rparr>)
   \<and> (\<exists>phi. potential_of_disk \<lparr>magnitude = 4, units = pq_mm\<rparr>
               \<lparr>magnitude = 0, units = pq_mm\<rparr> default_C_i
               \<lparr>magnitude = 3, units = pq_mm\<rparr> default_sigma = Inr phi
          \<and> magnitude phi = 1 / 600 \<and> units phi = pq_V \<and> si_value phi = 1 / 600)"
proof -
  have "sqrt (25::real) = 5"
    using real_sqrt_abs [of 5] by simp
  then show ?thesis
    using potential_of_disk_formula [of "\<lparr>magnitude = 4, units = pq_mm\<rparr>"
      "\<lparr>magnitude = 0, units = pq_mm\<rparr>" "\<lparr>magnitude = 3, units = pq_mm\<rparr>"
      default_C_i default_sigma]
    by (auto simp: default_C_i_def default_sigma_def unit_defs si_value_def)
qed

section \<open>Symmetry in field point and source position\<close>

text \<open>
  Claim C10. Swapping the field point \<open>z_j\<close> and the source position \<open>z_i\<close> does not change
  what \<open>potential_of_plane\<close> and \<open>potential_of_disk\<close> return, for any density, radius
  and conductivity: the positions enter through \<open>\<bar>z_j - z_i\<bar>\<close> and \<open>(z_j - z_i)\<^sup>2\<close> only.
  (Arguments in different units are rejected in either order.)
\<close>

theorem kernels_symmetric:
  "potential_of_plane z_j z_i C_i sigma = potential_of_plane z_i z_j C_i sigma
   \<and> potential_of_disk z_j z_i C_i R_i sigma = potential_of_disk z_i z_j C_i R_i sigma"
proof (cases "units z_j = units z_i")
  case True
  define d where "d = \<lparr>magnitude = magnitude z_j - magnitude z_i, units = units z_j\<rparr>"
  define d' where "d' = \<lparr>magnitude = magnitude z_i - magnitude z_j, units = units z_i\<rparr>"
  have sub: "qsub z_j z_i = Inr d" "qsub z_i z_j = Inr d'"
    using True by (simp_all add: qsub_same d_def d'_def)
  have "qabs d = qabs d'"
    using True by (simp add: qabs_def d_def d'_def abs_minus_commute)
  moreover have "qsqr d = qsqr d'"
    using True by (simp add: qsqr_def d_def d'_def power2_commute)
  ultimately show ?thesis
    using True
    by (simp add: potential_of_plane_def potential_of_disk_def assertion_def units_eq_iff sub
        cong: sum.case_cong)
next
  case False
  then show ?thesis
    by (auto simp: potential_of_plane_def potential_of_disk_def assertion_def units_eq_iff)
qed

section \<open>Rejected arguments\<close>

lemma kernels_reject:
  assumes "units z_j \<noteq> units z_i"
  shows "potential_of_plane z_j z_i C_i sigma = Inl TypeError"
    and "potential_of_disk z_j z_i C_i R_i sigma = Inl TypeError"
    and "potential_of_cylinder quad z_j z_i C_i R_i h_i sigma = Inl TypeError"
  using assms
  by (auto simp: potential_of_plane_def potential_of_disk_def potential_of_cylinder_def
      assertion_def reraise_with_message_def units_eq_iff)

lemma kernels_reject_radius:
  assumes "units R_i \<noteq> units z_i"
  shows "potential_of_disk z_j z_i C_i R_i sigma = Inl TypeError"
    and "potential_of_cylinder quad z_j z_i C_i R_i h_i sigma = Inl TypeError"
  using assms
  by (auto simp: potential_of_disk_def potential_of_cylinder_def
      assertion_def reraise_with_message_def units_eq_iff)

lemma kernels_reject_height:
  assumes "units h_i \<noteq> units z_i"
  shows "potential_of_cylinder quad z_j z_i C_i R_i h_i sigma = Inl TypeError"
  using assms
  by (auto simp: potential_of_cylinder_def assertion_def reraise_with_message_def units_eq_iff)

text \<open>
  Claim C6 says that a field point whose dimension differs from that of the source
  position makes every kernel raise the unit mismatch error. The kernels do stop at the
  assertion and compute nothing, but the error that leaves them is the \<^verbatim>\<open>TypeError\<close> of
  the handler's \<^verbatim>\<open>raise\<close> statement, not the error of the assertion with the message
  on the units that the handler sets out to raise. Here the field point is a
  conductivity and the source position a length.
\<close>

theorem dimension_mismatch_raises_TypeError:
  "dims (units default_sigma) \<noteq> dims (units default_z_i)
   \<and> potential_of_plane default_sigma default_z_i default_C_i default_sigma = Inl TypeError
   \<and> potential_of_disk default_sigma default_z_i default_C_i default_R_i default_sigma
       = Inl TypeError
   \<and> potential_of_cylinder (midpoint_rule 0) default_sigma default_z_i default_C_i_volume
         default_R_i default_h_i default_sigma = Inl TypeError"
proof -
  have "dims (units default_sigma) \<noteq> dims (units default_z_i)"
    by (simp add: default_sigma_def default_z_i_def unit_defs)
  moreover from this have "units default_sigma \<noteq> units default_z_i"
    by auto
  ultimately show ?thesis
    by (simp add: kernels_reject)
qed

section \<open>Accepted arguments\<close>

lemma rescale_si:
  assumes "dims (units b) = dims u" and "0 < factor u"
  shows "\<exists>b'. rescale b u = Inr b' \<and> units b' = u \<and> si_value b' = si_value b"
  using assms by (auto simp: rescale_def si_value_def)

lemma plane_returns_iff:
  "(\<exists>phi. potential_of_plane z_j z_i C_i sigma = Inr phi) \<longleftrightarrow> units z_j = units z_i"
  using plane_same_units [of z_j z_i C_i sigma] kernels_reject(1) [of z_j z_i C_i sigma]
  by (cases "units z_j = units z_i") auto

lemma disk_returns:
  assumes "units z_j = units z_i" and "units R_i = units z_i"
  shows "\<exists>phi. potential_of_disk z_j z_i C_i R_i sigma = Inr phi"
proof -
  let ?u = "units z_i"
  define d where "d = \<lparr>magnitude = magnitude z_j - magnitude z_i, units = units z_j\<rparr>"
  define s where "s = \<lparr>magnitude = (magnitude d)\<^sup>2 + (magnitude R_i)\<^sup>2, units = unit_sqr ?u\<rparr>"
  have sub: "qsub z_j z_i = Inr d"
    using assms(1) by (simp add: qsub_same d_def)
  have add: "qadd (qsqr d) (qsqr R_i) = Inr s"
    using assms by (simp add: qadd_same qsqr_def d_def s_def)
  have "dims (unit_sqrt (unit_sqr ?u)) = dims ?u"
    by (cases "dims ?u") (simp add: unit_sqrt_def unit_sqr_def dim_pow_def)
  then have "dims (units (qabs d)) = dims (units (qsqrt s))"
    using assms(1) by (simp add: qabs_def qsqrt_def d_def s_def)
  then have "\<exists>t. qsub (qsqrt s) (qabs d) = Inr t"
    by (cases "units (qabs d) = units (qsqrt s)") (simp_all add: qsub_def rescale_def)
  then obtain t where t: "qsub (qsqrt s) (qabs d) = Inr t"
    by blast
  show ?thesis
    using assms by (simp add: potential_of_disk_def assertion_def units_eq_iff sub add t)
qed

lemma disk_returns_iff:
  "(\<exists>phi. potential_of_disk z_j z_i C_i R_i sigma = Inr phi)
   \<longleftrightarrow> units z_j = units z_i \<and> units R_i = units z_i"
  using disk_returns [of z_j z_i R_i C_i sigma] kernels_reject(2) [of z_j z_i C_i R_i sigma]
    kernels_reject_radius(1) [of R_i z_i z_j C_i sigma]
  by (cases "units z_j = units z_i"; cases "units R_i = units z_i") auto

section \<open>The cylinder kernel\<close>

lemma integrand_values:
  assumes "sigma' \<noteq> 0"
  shows "(\<lambda>z. case integrand sigma' R_i' z_j' z of Inl e \<Rightarrow> 0 | Inr y \<Rightarrow> y)
         = (\<lambda>z. 1 / (2 * sigma') * (sqrt ((z - z_j')\<^sup>2 + R_i'\<^sup>2) - \<bar>z - z_j'\<bar>))"
  using assms by (intro ext) (simp add: integrand_def)

lemma si_quad_nonzero:
  assumes "sigma' \<noteq> 0"
  shows "si_quad quad (integrand sigma' R_i' z_j') a b
         = Inr (quad (\<lambda>z. 1 / (2 * sigma') * (sqrt ((z - z_j')\<^sup>2 + R_i'\<^sup>2) - \<bar>z - z_j'\<bar>)) a b)"
proof -
  have "integrand sigma' R_i' z_j' a
        = Inr (1 / (2 * sigma') * (sqrt ((a - z_j')\<^sup>2 + R_i'\<^sup>2) - \<bar>a - z_j'\<bar>))"
    using assms by (simp add: integrand_def)
  then show ?thesis
    by (simp add: si_quad_def integrand_values [OF assms])
qed

lemma si_quad_zero: "si_quad quad (integrand 0 R_i' z_j') a b = Inl ZeroDivisionError"
  by (simp add: si_quad_def integrand_def)

lemma cylinder_limits:
  assumes "units z_j = units z_i" and "units R_i = units z_i" and "units h_i = units z_i"
  shows "potential_of_cylinder quad z_j z_i C_i R_i h_i sigma =
     (case si_quad quad (integrand (magnitude sigma) (magnitude R_i) (magnitude z_j))
             (magnitude z_i - magnitude h_i / 2) (magnitude z_i + magnitude h_i / 2) of
        Inl e \<Rightarrow> Inl e
      | Inr (val, err) \<Rightarrow>
          Inr \<lparr>magnitude = magnitude C_i * val,
               units = unit_div (unit_mul (units C_i) (unit_sqr (units z_i))) (units sigma)\<rparr>)"
  using assms
  by (simp add: potential_of_cylinder_def assertion_def units_eq_iff qsub_same qadd_same
      scalar_div_def mul_scalar_def qmul_def qdiv_def qsqr_def unit_quantity_def
      split: sum.split prod.split)

lemma cylinder_same_units:
  assumes "units z_j = units z_i" and "units R_i = units z_i" and "units h_i = units z_i"
    and "magnitude sigma \<noteq> 0"
  shows "potential_of_cylinder quad z_j z_i C_i R_i h_i sigma =
     Inr \<lparr>magnitude = magnitude C_i
                  * fst (quad (\<lambda>z. 1 / (2 * magnitude sigma)
                                  * (sqrt ((z - magnitude z_j)\<^sup>2 + (magnitude R_i)\<^sup>2)
                                     - \<bar>z - magnitude z_j\<bar>))
                           (magnitude z_i - magnitude h_i / 2)
                           (magnitude z_i + magnitude h_i / 2)),
          units = unit_div (unit_mul (units C_i) (unit_sqr (units z_i))) (units sigma)\<rparr>"
  by (simp add: cylinder_limits [OF assms(1-3)] si_quad_nonzero [OF assms(4)] split: prod.split)

lemma cylinder_zero_sigma:
  assumes "units z_j = units z_i" and "units R_i = units z_i" and "units h_i = units z_i"
    and "magnitude sigma = 0"
  shows "potential_of_cylinder quad z_j z_i C_i R_i h_i sigma = Inl ZeroDivisionError"
  by (simp add: cylinder_limits [OF assms(1-3)] assms(4) si_quad_zero)

lemma cylinder_returns_iff:
  "(\<exists>phi. potential_of_cylinder quad z_j z_i C_i R_i h_i sigma = Inr phi)
   \<longleftrightarrow> units z_j = units z_i \<and> units R_i = units z_i \<and> units h_i = units z_i
        \<and> magnitude sigma \<noteq> 0"
proof (cases "units z_j = units z_i \<and> units R_i = units z_i \<and> units h_i = units z_i")
  case True
  then show ?thesis
    using cylinder_same_units [of z_j z_i R_i h_i sigma quad C_i]
      cylinder_zero_sigma [of z_j z_i R_i h_i sigma quad C_i]
    by (cases "magnitude sigma = 0") auto
next
  case False
  then have "potential_of_cylinder quad z_j z_i C_i R_i h_i sigma = Inl TypeError"
    using kernels_reject(3) [of z_j z_i quad C_i R_i h_i sigma]
      kernels_reject_radius(2) [of R_i z_i quad z_j C_i h_i sigma]
      kernels_reject_height [of h_i z_i quad z_j C_i R_i sigma]
    by blast
  with False show ?thesis
    by auto
qed

text \<open>
  Claim C5. The integrand of \<open>potential_of_cylinder\<close> is a function of plain numbers, the
  magnitudes of the arguments. For positional arguments in one unit and a conductivity
  whose magnitude is not zero, the kernel returns the magnitude of \<open>C_i\<close> times the value
  the quadrature gives for
  \<open>1 / (2 sigma) * (sqrt ((z - z_j)\<^sup>2 + R_i\<^sup>2) - \<bar>z - z_j\<bar>)\<close> between \<open>z_i - h_i / 2\<close> and
  \<open>z_i + h_i / 2\<close>, in the unit built from the units of the arguments: density unit times
  length unit squared over conductivity unit.
\<close>

theorem potential_of_cylinder_formula:
  assumes "units z_j = units z_i" and "units R_i = units z_i" and "units h_i = units z_i"
    and "magnitude sigma \<noteq> 0"
  shows "\<exists>phi. potential_of_cylinder quad z_j z_i C_i R_i h_i sigma = Inr phi
     \<and> magnitude phi =
          magnitude C_i
          * fst (quad (\<lambda>z. 1 / (2 * magnitude sigma)
                          * (sqrt ((z - magnitude z_j)\<^sup>2 + (magnitude R_i)\<^sup>2)
                             - \<bar>z - magnitude z_j\<bar>))
                   (magnitude z_i - magnitude h_i / 2) (magnitude z_i + magnitude h_i / 2))
     \<and> units phi = unit_div (unit_mul (units C_i) (unit_sqr (units z_i))) (units sigma)
     \<and> factor (units phi) = factor (units C_i) * (factor (units z_i))\<^sup>2 / factor (units sigma)
     \<and> dims (units phi) =
          dim_div (dim_mul (dims (units C_i)) (dim_pow (dims (units z_i)) 2)) (dims (units sigma))"
  by (simp add: cylinder_same_units [OF assms] unit_div_def unit_mul_def unit_sqr_def)

theorem potential_of_cylinder_formula_witness:
  "units default_z_i = units default_z_i \<and> units default_R_i = units default_z_i
   \<and> units default_h_i = units default_z_i \<and> magnitude default_sigma \<noteq> 0
   \<and> (\<exists>phi. potential_of_cylinder (midpoint_rule 0) default_z_i default_z_i default_C_i_volume
               default_R_i default_h_i default_sigma = Inr phi
          \<and> magnitude phi = 1 / 6000 \<and> units phi = pq_V)"
proof -
  have r: "sqrt ((1 / 1000)\<^sup>2) = (1 / 1000 :: real)"
    by (simp only: real_sqrt_abs)
  have u: "units default_z_i = units default_z_i" "units default_R_i = units default_z_i"
      "units default_h_i = units default_z_i" "magnitude default_sigma \<noteq> 0"
    by (simp_all add: default_z_i_def default_R_i_def default_h_i_def default_sigma_def)
  have v: "unit_div (unit_mul (units default_C_i_volume) (unit_sqr (units default_z_i)))
             (units default_sigma) = pq_V"
    by (simp add: default_C_i_volume_def default_z_i_def default_sigma_def unit_defs)
  have m: "magnitude default_z_i = 0" "magnitude default_R_i = 1 / 1000"
      "magnitude default_h_i = 1 / 10" "magnitude default_sigma = 3 / 10"
      "magnitude default_C_i_volume = 1"
    by (simp_all add: default_z_i_def default_R_i_def default_h_i_def default_sigma_def
        default_C_i_volume_def)
  show ?thesis
    using u potential_of_cylinder_formula [OF u, of "midpoint_rule 0" default_C_i_volume]
    by (auto simp: v m r midpoint_rule_def)
qed

lemma default_cylinder_quadrature:
  "si_quad (midpoint_rule err)
     (integrand (magnitude default_sigma) (magnitude default_R_i) (magnitude default_z_i))
     (magnitude default_z_i - magnitude default_h_i / 2)
     (magnitude default_z_i + magnitude default_h_i / 2)
   = Inr (1 / 6000, err)"
proof -
  have r: "sqrt ((1 / 1000)\<^sup>2) = (1 / 1000 :: real)"
    by (simp only: real_sqrt_abs)
  show ?thesis
    by (simp add: si_quad_nonzero default_sigma_def default_R_i_def default_z_i_def
        default_h_i_def midpoint_rule_def r)
qed

lemma default_cylinder_units:
  "unit_div (unit_mul (units default_C_i_volume) (unit_sqr (units default_z_i)))
     (units default_sigma) = pq_V"
  by (simp add: default_C_i_volume_def default_z_i_def default_sigma_def unit_defs)

text \<open>
  Claim C9 says that the kernel returns the approximate value together with the achieved
  error estimate. It returns the potential only: on the default arguments, two quadrature
  routines that give the value 1/6000 with the error estimates 0 and 1 both lead to the
  returned potential 1/6000 V, in which neither estimate appears.
\<close>

theorem cylinder_abserr_not_returned:
  "si_quad (midpoint_rule 0)
     (integrand (magnitude default_sigma) (magnitude default_R_i) (magnitude default_z_i))
     (magnitude default_z_i - magnitude default_h_i / 2)
     (magnitude default_z_i + magnitude default_h_i / 2) = Inr (1 / 6000, 0)
   \<and> si_quad (midpoint_rule 1)
     (integrand (magnitude default_sigma) (magnitude default_R_i) (magnitude default_z_i))
     (magnitude default_z_i - magnitude default_h_i / 2)
     (magnitude default_z_i + magnitude default_h_i / 2) = Inr (1 / 6000, 1)
   \<and> potential_of_cylinder (midpoint_rule 0) default_z_i default_z_i default_C_i_volume
       default_R_i default_h_i default_sigma = Inr \<lparr>magnitude = 1 / 6000, units = pq_V\<rparr>
   \<and> potential_of_cylinder (midpoint_rule 1) default_z_i default_z_i default_C_i_volume
       default_R_i default_h_i default_sigma = Inr \<lparr>magnitude = 1 / 6000, units = pq_V\<rparr>"
proof -
  have u: "units default_z_i = units default_z_i" "units default_R_i = units default_z_i"
      "units default_h_i = units default_z_i"
    by (simp_all add: default_z_i_def default_R_i_def default_h_i_def)
  have c: "magnitude default_C_i_volume = 1"
    by (simp add: default_C_i_volume_def)
  show ?thesis
    by (simp add: cylinder_limits [OF u] default_cylinder_quadrature default_cylinder_units c)
qed

text \<open>
  Claim C9, amended. When the quadrature returns a value and an error estimate, the
  cylinder kernel does not fail, whatever the estimate is: for positional arguments in
  one unit it returns the potential whose magnitude is that of \<open>C_i\<close> times the value, in
  the unit built from the units of the arguments. The error estimate is dropped and is
  no part of what the kernel returns.
\<close>

theorem cylinder_returns_value_only:
  assumes "units z_j = units z_i" and "units R_i = units z_i" and "units h_i = units z_i"
    and "si_quad quad (integrand (magnitude sigma) (magnitude R_i) (magnitude z_j))
           (magnitude z_i - magnitude h_i / 2) (magnitude z_i + magnitude h_i / 2)
         = Inr (val, err)"
  shows "potential_of_cylinder quad z_j z_i C_i R_i h_i sigma =
     Inr \<lparr>magnitude = magnitude C_i * val,
          units = unit_div (unit_mul (units C_i) (unit_sqr (units z_i))) (units sigma)\<rparr>"
  by (simp add: cylinder_limits [OF assms(1-3)] assms(4))

theorem cylinder_returns_value_only_witness:
  "units default_z_i = units default_z_i \<and> units default_R_i = units default_z_i
   \<and> units default_h_i = units default_z_i
   \<and> si_quad (midpoint_rule 1)
       (integrand (magnitude default_sigma) (magnitude default_R_i) (magnitude default_z_i))
       (magnitude default_z_i - magnitude default_h_i / 2)
       (magnitude default_z_i + magnitude default_h_i / 2) = Inr (1 / 6000, 1)
   \<and> potential_of_cylinder (midpoint_rule 1) default_z_i default_z_i default_C_i_volume
       default_R_i default_h_i default_sigma = Inr \<lparr>magnitude = 1 / 6000, units = pq_V\<rparr>"
proof -
  have u: "units default_z_i = units default_z_i" "units default_R_i = units default_z_i"
      "units default_h_i = units default_z_i"
    by (simp_all add: default_z_i_def default_R_i_def default_h_i_def)
  have c: "magnitude default_C_i_volume = 1"
    by (simp add: default_C_i_volume_def)
  note q = default_cylinder_quadrature [of 1]
  from cylinder_returns_value_only [OF u q, of default_C_i_volume] u q show ?thesis
    by (simp add: default_cylinder_units c)
qed

section \<open>Quantities of the same dimension and different scale\<close>

text \<open>
  Claim C7 says that the kernels accept positional arguments of the same dimension and
  different scale. They do not: with a field point in millimetres and a source position
  in metres the units assertion fails and no potential is returned.
\<close>

theorem mixed_scale_rejected:
  "dims (units \<lparr>magnitude = 1, units = pq_mm\<rparr>) = dims (units default_z_i)
   \<and> potential_of_plane \<lparr>magnitude = 1, units = pq_mm\<rparr> default_z_i default_C_i default_sigma
       = Inl TypeError"
  by (simp add: potential_of_plane_def assertion_def reraise_with_message_def units_eq_iff
      default_z_i_def unit_defs)

text \<open>
  Claim C7, amended. Subtraction and addition of two quantities of the same dimension
  rescale the right operand to the unit of the left one, so the result is correct on the
  SI values whatever the two scales are. The kernels, however, assert that their positional
  arguments carry equal units: the plane kernel returns a potential exactly when \<open>z_j\<close> and
  \<open>z_i\<close> have the same unit, the disk kernel exactly when \<open>z_j\<close>, \<open>z_i\<close> and \<open>R_i\<close> have the
  same unit, and the cylinder kernel exactly when \<open>z_j\<close>, \<open>z_i\<close>, \<open>R_i\<close> and \<open>h_i\<close> have the
  same unit and the magnitude of the conductivity is not zero. Arguments that differ in
  unit, also in scale only, are rejected.
\<close>

theorem scale_reconciled_in_arithmetic:
  "(dims (units b) = dims (units a) \<and> 0 < factor (units a) \<longrightarrow>
      (\<exists>c d. qsub a b = Inr c \<and> units c = units a \<and> si_value c = si_value a - si_value b
           \<and> qadd a b = Inr d \<and> units d = units a \<and> si_value d = si_value a + si_value b))
   \<and> ((\<exists>phi. potential_of_plane z_j z_i C_i sigma = Inr phi) \<longleftrightarrow> units z_j = units z_i)
   \<and> ((\<exists>phi. potential_of_disk z_j z_i C_i R_i sigma = Inr phi)
        \<longleftrightarrow> units z_j = units z_i \<and> units R_i = units z_i)
   \<and> ((\<exists>phi. potential_of_cylinder quad z_j z_i C_i R_i h_i sigma = Inr phi)
        \<longleftrightarrow> units z_j = units z_i \<and> units R_i = units z_i \<and> units h_i = units z_i
             \<and> magnitude sigma \<noteq> 0)"
proof (intro conjI impI)
  assume "dims (units b) = dims (units a) \<and> 0 < factor (units a)"
  then obtain b' where b': "rescale b (units a) = Inr b'" "si_value b' = si_value b"
      "units b' = units a"
    using rescale_si [of b "units a"] by auto
  then have "magnitude b' * factor (units a) = si_value b"
    by (simp add: si_value_def)
  then show "\<exists>c d. qsub a b = Inr c \<and> units c = units a \<and> si_value c = si_value a - si_value b
           \<and> qadd a b = Inr d \<and> units d = units a \<and> si_value d = si_value a + si_value b"
    by (simp add: qsub_def qadd_def b' si_value_def algebra_simps)
qed (rule plane_returns_iff disk_returns_iff cylinder_returns_iff)+

theorem scale_reconciled_in_arithmetic_witness:
  "dims (units \<lparr>magnitude = 500, units = pq_mm\<rparr>) = dims (units \<lparr>magnitude = 2, units = pq_m\<rparr>)
   \<and> 0 < factor (units \<lparr>magnitude = 2, units = pq_m\<rparr>)
   \<and> (\<exists>c d. qsub \<lparr>magnitude = 2, units = pq_m\<rparr> \<lparr>magnitude = 500, units = pq_mm\<rparr> = Inr c
          \<and> units c = pq_m \<and> si_value c = 3 / 2
          \<and> qadd \<lparr>magnitude = 2, units = pq_m\<rparr> \<lparr>magnitude = 500, units = pq_mm\<rparr> = Inr d
          \<and> units d = pq_m \<and> si_value d = 5 / 2)
   \<and> units \<lparr>magnitude = 2, units = pq_mm\<rparr> \<noteq> units default_z_i
   \<and> \<not> (\<exists>phi. potential_of_plane \<lparr>magnitude = 2, units = pq_mm\<rparr> default_z_i
               default_C_i default_sigma = Inr phi)
   \<and> \<not> (\<exists>phi. potential_of_disk default_z_i default_z_i default_C_i
               \<lparr>magnitude = 2, units = pq_mm\<rparr> default_sigma = Inr phi)
   \<and> \<not> (\<exists>phi. potential_of_cylinder (midpoint_rule 0) default_z_i default_z_i
               default_C_i_volume default_R_i \<lparr>magnitude = 2, units = pq_mm\<rparr> default_sigma
             = Inr phi)
   \<and> (\<exists>phi. potential_of_plane default_z_i default_z_i default_C_i default_sigma = Inr phi)"
proof -
  have d: "dims (units \<lparr>magnitude = 500, units = pq_mm\<rparr>)
           = dims (units \<lparr>magnitude = 2, units = pq_m\<rparr>)
      \<and> 0 < factor (units \<lparr>magnitude = 2, units = pq_m\<rparr>)"
    by (simp add: unit_defs)
  have u: "units \<lparr>magnitude = 2, units = pq_mm\<rparr> \<noteq> units default_z_i"
    by (simp add: default_z_i_def unit_defs)
  have u': "units default_R_i = units default_z_i" "units default_h_i = units default_z_i"
    by (simp_all add: default_R_i_def default_h_i_def default_z_i_def)
  have v: "si_value \<lparr>magnitude = 2, units = pq_m\<rparr> = 2"
      "si_value \<lparr>magnitude = 500, units = pq_mm\<rparr> = 1 / 2"
    by (simp_all add: si_value_def unit_defs)
  have arith: "\<exists>c d. qsub \<lparr>magnitude = 2, units = pq_m\<rparr> \<lparr>magnitude = 500, units = pq_mm\<rparr> = Inr c
          \<and> units c = pq_m \<and> si_value c = 3 / 2
          \<and> qadd \<lparr>magnitude = 2, units = pq_m\<rparr> \<lparr>magnitude = 500, units = pq_mm\<rparr> = Inr d
          \<and> units d = pq_m \<and> si_value d = 5 / 2"
    using d scale_reconciled_in_arithmetic [of "\<lparr>magnitude = 500, units = pq_mm\<rparr>"
        "\<lparr>magnitude = 2, units = pq_m\<rparr>" default_z_i default_z_i default_C_i default_sigma
        default_R_i "midpoint_rule 0" default_h_i]
    by (simp add: v)
  have plane: "\<not> (\<exists>phi. potential_of_plane \<lparr>magnitude = 2, units = pq_mm\<rparr> default_z_i
               default_C_i default_sigma = Inr phi)"
    using u scale_reconciled_in_arithmetic [of default_z_i default_z_i
        "\<lparr>magnitude = 2, units = pq_mm\<rparr>" default_z_i default_C_i default_sigma
        default_R_i "midpoint_rule 0" default_h_i]
    by simp
  have disk: "\<not> (\<exists>phi. potential_of_disk default_z_i default_z_i default_C_i
               \<lparr>magnitude = 2, units = pq_mm\<rparr> default_sigma = Inr phi)"
    using u scale_reconciled_in_arithmetic [of default_z_i default_z_i
        default_z_i default_z_i default_C_i default_sigma
        "\<lparr>magnitude = 2, units = pq_mm\<rparr>" "midpoint_rule 0" default_h_i]
    by simp
  have cyl: "\<not> (\<exists>phi. potential_of_cylinder (midpoint_rule 0) default_z_i default_z_i
               default_C_i_volume default_R_i \<lparr>magnitude = 2, units = pq_mm\<rparr> default_sigma
             = Inr phi)"
    using u scale_reconciled_in_arithmetic [of default_z_i default_z_i
        default_z_i default_z_i default_C_i_volume default_sigma
        default_R_i "midpoint_rule 0" "\<lparr>magnitude = 2, units = pq_mm\<rparr>"]
    by simp
  have ok: "\<exists>phi. potential_of_plane default_z_i default_z_i default_C_i default_sigma = Inr phi"
    using scale_reconciled_in_arithmetic [of default_z_i default_z_i
        default_z_i default_z_i default_C_i default_sigma
        default_R_i "midpoint_rule 0" default_h_i]
    by simp
  from d u arith plane disk cyl ok show ?thesis
    by blast
qed

section \<open>The synthesized trace\<close>

lemma volts_SomeD:
  "volts r = Some v \<Longrightarrow> \<exists>q q'. r = Inr q \<and> rescale q pq_V = Inr q' \<and> magnitude q' = v \<and> units q' = pq_V"
  apply (cases r)
   apply (simp add: volts_def)
  apply (simp add: volts_def split: sum.splits)
  apply (auto simp: rescale_def split: if_splits)
  done

lemma electrode_step_ok:
  assumes "aunits phi = pq_V" and "j < length (magnitudes phi)" and "volts (call z) = Some v"
  shows "electrode_loop call (z # zs) j phi =
         electrode_loop call zs (Suc j)
           (phi\<lparr>magnitudes := (magnitudes phi)[j := magnitudes phi ! j + v]\<rparr>)"
proof -
  from volts_SomeD [OF assms(3)] obtain q q' where
    q: "call z = Inr q" "rescale q pq_V = Inr q'" "magnitude q' = v" "units q' = pq_V"
    by blast
  have g: "getitem phi j = Inr \<lparr>magnitude = magnitudes phi ! j, units = pq_V\<rparr>"
    using assms(1,2) by (simp add: getitem_def)
  have a: "qadd \<lparr>magnitude = magnitudes phi ! j, units = pq_V\<rparr> q
           = Inr \<lparr>magnitude = magnitudes phi ! j + v, units = pq_V\<rparr>"
    using q by (simp add: qadd_def)
  have s: "setitem phi j \<lparr>magnitude = magnitudes phi ! j + v, units = pq_V\<rparr>
           = Inr (phi\<lparr>magnitudes := (magnitudes phi)[j := magnitudes phi ! j + v]\<rparr>)"
    using assms(1,2) by (simp add: setitem_def rescale_same)
  show ?thesis
    by (simp add: g q(1) a s)
qed

lemma volts_NoneD:
  "volts r = None \<Longrightarrow> isl r \<or> (\<exists>q. r = Inr q \<and> isl (rescale q pq_V))"
  by (cases r) (simp_all add: volts_def split: sum.splits)

lemma electrode_step_fail:
  assumes "aunits phi = pq_V" and "j < length (magnitudes phi)" and "volts (call z) = None"
  shows "isl (electrode_loop call (z # zs) j phi)"
proof -
  have g: "getitem phi j = Inr \<lparr>magnitude = magnitudes phi ! j, units = pq_V\<rparr>"
    using assms(1,2) by (simp add: getitem_def)
  from volts_NoneD [OF assms(3)] show ?thesis
  proof
    assume "isl (call z)"
    then obtain e where "call z = Inl e"
      by (cases "call z") auto
    then show ?thesis
      by (simp add: g)
  next
    assume "\<exists>q. call z = Inr q \<and> isl (rescale q pq_V)"
    then obtain q e where "call z = Inr q" "rescale q pq_V = Inl e"
      by (metis isl_def)
    then show ?thesis
      by (simp add: g qadd_def)
  qed
qed

lemma electrode_loop_ok:
  assumes "aunits phi = pq_V" and "j0 + length zs \<le> length (magnitudes phi)"
    and "\<forall>z \<in> set zs. volts (call z) \<noteq> None"
  shows "\<exists>phi'. electrode_loop call zs j0 phi = Inr phi' \<and> aunits phi' = pq_V
     \<and> length (magnitudes phi') = length (magnitudes phi)
     \<and> (\<forall>k < length (magnitudes phi).
           magnitudes phi' ! k =
             (if j0 \<le> k \<and> k < j0 + length zs
              then magnitudes phi ! k + the (volts (call (zs ! (k - j0))))
              else magnitudes phi ! k))"
  using assms
proof (induction zs arbitrary: j0 phi)
  case Nil
  then show ?case by simp
next
  case (Cons z zs)
  from Cons.prems(3) obtain v where v: "volts (call z) = Some v"
    by auto
  let ?phi = "phi\<lparr>magnitudes := (magnitudes phi)[j0 := magnitudes phi ! j0 + v]\<rparr>"
  have j0: "j0 < length (magnitudes phi)"
    using Cons.prems(2) by simp
  have step: "electrode_loop call (z # zs) j0 phi = electrode_loop call zs (Suc j0) ?phi"
    using Cons.prems(1) j0 v by (rule electrode_step_ok)
  have "\<exists>phi'. electrode_loop call zs (Suc j0) ?phi = Inr phi' \<and> aunits phi' = pq_V
     \<and> length (magnitudes phi') = length (magnitudes ?phi)
     \<and> (\<forall>k < length (magnitudes ?phi).
           magnitudes phi' ! k =
             (if Suc j0 \<le> k \<and> k < Suc j0 + length zs
              then magnitudes ?phi ! k + the (volts (call (zs ! (k - Suc j0))))
              else magnitudes ?phi ! k))"
    using Cons.prems by (intro Cons.IH) simp_all
  then obtain phi' where phi': "electrode_loop call zs (Suc j0) ?phi = Inr phi'"
      "aunits phi' = pq_V" "length (magnitudes phi') = length (magnitudes phi)"
      "\<And>k. k < length (magnitudes phi) \<Longrightarrow>
           magnitudes phi' ! k =
             (if Suc j0 \<le> k \<and> k < Suc j0 + length zs
              then magnitudes ?phi ! k + the (volts (call (zs ! (k - Suc j0))))
              else magnitudes ?phi ! k)"
    by auto
  have "magnitudes phi' ! k =
          (if j0 \<le> k \<and> k < j0 + length (z # zs)
           then magnitudes phi ! k + the (volts (call ((z # zs) ! (k - j0))))
           else magnitudes phi ! k)" if "k < length (magnitudes phi)" for k
  proof (cases "k = j0")
    case True
    then show ?thesis
      using phi'(4) [OF that] j0 v by simp
  next
    case False
    then show ?thesis
      using phi'(4) [OF that] by (auto simp: nth_Cons' Suc_diff_Suc)
  qed
  then show ?case
    using step phi'(1,2,3) by simp
qed

lemma electrode_loop_fail:
  assumes "aunits phi = pq_V" and "j0 + length zs \<le> length (magnitudes phi)"
    and "\<exists>z \<in> set zs. volts (call z) = None"
  shows "isl (electrode_loop call zs j0 phi)"
  using assms
proof (induction zs arbitrary: j0 phi)
  case Nil
  then show ?case by simp
next
  case (Cons z zs)
  have j0: "j0 < length (magnitudes phi)"
    using Cons.prems(2) by simp
  show ?case
  proof (cases "volts (call z)")
    case None
    with Cons.prems(1) j0 show ?thesis
      by (rule electrode_step_fail)
  next
    case (Some v)
    let ?phi = "phi\<lparr>magnitudes := (magnitudes phi)[j0 := magnitudes phi ! j0 + v]\<rparr>"
    have step: "electrode_loop call (z # zs) j0 phi = electrode_loop call zs (Suc j0) ?phi"
      using Cons.prems(1) j0 Some by (rule electrode_step_ok)
    have "isl (electrode_loop call zs (Suc j0) ?phi)"
      using Cons.prems Some by (intro Cons.IH) auto
    then show ?thesis
      by (simp only: step)
  qed
qed

lemma source_loop_ok:
  assumes "aunits phi = pq_V" and "length (magnitudes phi) = length zjs"
    and "\<forall>i < length zis. \<forall>z \<in> set zjs. volts (call (i0 + i) (zis ! i) z) \<noteq> None"
  shows "\<exists>phi'. source_loop call zis i0 zjs phi = Inr phi' \<and> aunits phi' = pq_V
     \<and> magnitudes phi' =
         map (\<lambda>j. magnitudes phi ! j
                   + (\<Sum>i < length zis. the (volts (call (i0 + i) (zis ! i) (zjs ! j)))))
           [0 ..< length zjs]"
  using assms
proof (induction zis arbitrary: i0 phi)
  case Nil
  have "map ((!) (magnitudes phi)) [0 ..< length (magnitudes phi)] = magnitudes phi"
    by (rule map_nth)
  with Nil show ?case
    by simp
next
  case (Cons zi zis)
  have "\<forall>z \<in> set zjs. volts (call i0 zi z) \<noteq> None"
    using Cons.prems(3) by fastforce
  with Cons.prems(1,2) obtain phi1 where phi1:
      "electrode_loop (call i0 zi) zjs 0 phi = Inr phi1" "aunits phi1 = pq_V"
      "length (magnitudes phi1) = length zjs"
      "\<And>k. k < length zjs \<Longrightarrow>
          magnitudes phi1 ! k = magnitudes phi ! k + the (volts (call i0 zi (zjs ! k)))"
    using electrode_loop_ok [of phi 0 zjs "call i0 zi"] by auto
  have rest: "\<forall>i < length zis. \<forall>z \<in> set zjs. volts (call (Suc i0 + i) (zis ! i) z) \<noteq> None"
    using Cons.prems(3) by fastforce
  from Cons.IH [OF phi1(2,3) rest] obtain phi' where phi':
      "source_loop call zis (Suc i0) zjs phi1 = Inr phi'" "aunits phi' = pq_V"
      "magnitudes phi' =
         map (\<lambda>j. magnitudes phi1 ! j
                   + (\<Sum>i < length zis. the (volts (call (Suc i0 + i) (zis ! i) (zjs ! j)))))
           [0 ..< length zjs]"
    by blast
  have "magnitudes phi' =
         map (\<lambda>j. magnitudes phi ! j
                   + (\<Sum>i < length (zi # zis).
                        the (volts (call (i0 + i) ((zi # zis) ! i) (zjs ! j)))))
           [0 ..< length zjs]"
    unfolding phi'(3)
    by (rule map_cong)
      (simp_all add: phi1(4) sum.lessThan_Suc_shift add.assoc del: sum.lessThan_Suc)
  then show ?case
    using phi1(1) phi'(1,2) by simp
qed

lemma source_loop_fail:
  assumes "aunits phi = pq_V" and "length (magnitudes phi) = length zjs"
    and "\<exists>i < length zis. \<exists>z \<in> set zjs. volts (call (i0 + i) (zis ! i) z) = None"
  shows "isl (source_loop call zis i0 zjs phi)"
  using assms
proof (induction zis arbitrary: i0 phi)
  case Nil
  then show ?case by simp
next
  case (Cons zi zis)
  show ?case
  proof (cases "\<exists>z \<in> set zjs. volts (call i0 zi z) = None")
    case True
    with Cons.prems(1,2) have "isl (electrode_loop (call i0 zi) zjs 0 phi)"
      by (intro electrode_loop_fail) simp_all
    then show ?thesis
      by (auto simp: isl_def)
  next
    case False
    with Cons.prems(1,2) obtain phi1 where phi1:
        "electrode_loop (call i0 zi) zjs 0 phi = Inr phi1" "aunits phi1 = pq_V"
        "length (magnitudes phi1) = length zjs"
      using electrode_loop_ok [of phi 0 zjs "call i0 zi"] by auto
    from Cons.prems(3) obtain i z where iz: "i < Suc (length zis)" "z \<in> set zjs"
        "volts (call (i0 + i) ((zi # zis) ! i) z) = None"
      by auto
    with False obtain i' where i': "i = Suc i'"
      by (cases i) auto
    have "\<exists>i < length zis. \<exists>z \<in> set zjs. volts (call (Suc i0 + i) (zis ! i) z) = None"
      using iz i' by auto
    from Cons.IH [OF phi1(2,3) this] show ?thesis
      by (simp add: phi1(1))
  qed
qed

lemma elements_nth: "j < length (magnitudes a) \<Longrightarrow> elements a ! j = \<lparr>magnitude = magnitudes a ! j, units = aunits a\<rparr>"
  by (simp add: elements_def)

lemma length_elements: "length (elements a) = length (magnitudes a)"
  by (simp add: elements_def)

lemma all_calls_ok_iff:
  "all_calls_ok call z_j z_i \<longleftrightarrow>
     (\<forall>i < length (elements z_i). \<forall>z \<in> set (elements z_j).
        volts (call (0 + i) (elements z_i ! i) z) \<noteq> None)"
  by (simp add: all_calls_ok_def all_set_conv_all_nth length_elements)

lemma superpose_ok:
  assumes "all_calls_ok call z_j z_i"
  shows "superpose call z_j z_i = Inr (trace_sum call z_j z_i)"
proof -
  let ?phi = "zeros (length (magnitudes z_j)) pq_V"
  have "\<exists>phi'. source_loop call (elements z_i) 0 (elements z_j) ?phi = Inr phi' \<and> aunits phi' = pq_V
     \<and> magnitudes phi' =
         map (\<lambda>j. magnitudes ?phi ! j
                   + (\<Sum>i < length (elements z_i).
                        the (volts (call (0 + i) (elements z_i ! i) (elements z_j ! j)))))
           [0 ..< length (elements z_j)]"
    using assms unfolding all_calls_ok_iff
    by (intro source_loop_ok) (simp_all add: zeros_def length_elements)
  then obtain phi' where phi': "superpose call z_j z_i = Inr phi'" "aunits phi' = pq_V"
      "magnitudes phi' =
         map (\<lambda>j. magnitudes ?phi ! j
                   + (\<Sum>i < length (magnitudes z_i).
                        the (volts (call i (elements z_i ! i) (elements z_j ! j)))))
           [0 ..< length (magnitudes z_j)]"
    by (auto simp: superpose_def length_elements)
  have "magnitudes phi' = magnitudes (trace_sum call z_j z_i)"
    unfolding phi'(3) trace_sum_def by (simp add: zeros_def)
  with phi'(2) have "phi' = trace_sum call z_j z_i"
    by (simp add: trace_sum_def)
  with phi'(1) show ?thesis
    by simp
qed

lemma superpose_fail:
  assumes "\<not> all_calls_ok call z_j z_i"
  shows "isl (superpose call z_j z_i)"
  unfolding superpose_def
  using assms unfolding all_calls_ok_iff
  by (intro source_loop_fail) (auto simp: zeros_def length_elements)

lemma superpose_Inr_iff:
  "superpose call z_j z_i = Inr phi \<longleftrightarrow> all_calls_ok call z_j z_i \<and> phi = trace_sum call z_j z_i"
  using superpose_ok [of call z_j z_i] superpose_fail [of call z_j z_i]
  by (cases "all_calls_ok call z_j z_i") (auto simp: isl_def)

lemma sum_lessThan_split:
  "(\<Sum>i < m + n. f i) = (\<Sum>i < m. f i) + (\<Sum>i < n. f (m + i))" for f :: "nat \<Rightarrow> real"
  by (induction n) (simp_all add: add.assoc)

lemma elements_concatenate:
  "aunits b = aunits a \<Longrightarrow> elements (concatenate a b) = elements a @ elements b"
  by (simp add: elements_def concatenate_def)

lemma superpose_concatenate:
  assumes units: "aunits z2 = aunits z1"
    and call1: "\<And>i zi zj. i < length (magnitudes z1) \<Longrightarrow> call i zi zj = call1 i zi zj"
    and call2: "\<And>i zi zj. call (length (magnitudes z1) + i) zi zj = call2 i zi zj"
    and phi1: "superpose call1 z_j z1 = Inr phi1"
    and phi2: "superpose call2 z_j z2 = Inr phi2"
  shows "superpose call z_j (concatenate z1 z2) = Inr (elementwise_add phi1 phi2)"
proof -
  let ?N1 = "length (magnitudes z1)" and ?N2 = "length (magnitudes z2)"
  let ?z = "concatenate z1 z2"
  let ?v = "\<lambda>c z i j. the (volts (c i (elements z ! i) (elements z_j ! j)))"
  from phi1 have ok1: "all_calls_ok call1 z_j z1" and t1: "phi1 = trace_sum call1 z_j z1"
    by (simp_all add: superpose_Inr_iff)
  from phi2 have ok2: "all_calls_ok call2 z_j z2" and t2: "phi2 = trace_sum call2 z_j z2"
    by (simp_all add: superpose_Inr_iff)
  have len: "length (magnitudes ?z) = ?N1 + ?N2"
    by (simp add: concatenate_def)
  have el: "elements ?z = elements z1 @ elements z2"
    using units by (rule elements_concatenate)
  have low: "call i (elements ?z ! i) zj = call1 i (elements z1 ! i) zj" if "i < ?N1" for i zj
    using that by (simp add: el nth_append length_elements call1)
  have high: "call (?N1 + i) (elements ?z ! (?N1 + i)) zj = call2 i (elements z2 ! i) zj"
    for i zj
    by (simp add: el nth_append length_elements call2)
  have ok: "all_calls_ok call z_j ?z"
    unfolding all_calls_ok_def len
  proof (intro allI impI)
    fix i j
    assume i: "i < ?N1 + ?N2" and j: "j < length (magnitudes z_j)"
    show "volts (call i (elements ?z ! i) (elements z_j ! j)) \<noteq> None"
    proof (cases "i < ?N1")
      case True
      then show ?thesis
        using ok1 j by (simp add: low all_calls_ok_def)
    next
      case False
      then obtain i' where i': "i = ?N1 + i'" "i' < ?N2"
        using i by (metis add_diff_inverse_nat nat_add_left_cancel_less)
      then show ?thesis
        using ok2 j by (simp add: high all_calls_ok_def)
    qed
  qed
  have "(\<Sum>i < ?N1 + ?N2. ?v call ?z i j) = (\<Sum>i < ?N1. ?v call1 z1 i j) + (\<Sum>i < ?N2. ?v call2 z2 i j)"
    for j
  proof -
    have "(\<Sum>i < ?N1 + ?N2. ?v call ?z i j)
          = (\<Sum>i < ?N1. ?v call ?z i j) + (\<Sum>i < ?N2. ?v call ?z (?N1 + i) j)"
      by (rule sum_lessThan_split)
    also have "(\<Sum>i < ?N1. ?v call ?z i j) = (\<Sum>i < ?N1. ?v call1 z1 i j)"
      by (rule sum.cong) (simp_all add: low)
    also have "(\<Sum>i < ?N2. ?v call ?z (?N1 + i) j) = (\<Sum>i < ?N2. ?v call2 z2 i j)"
      by (simp only: high)
    finally show ?thesis .
  qed
  then have "trace_sum call z_j ?z = elementwise_add phi1 phi2"
    unfolding t1 t2
    by (simp add: trace_sum_def elementwise_add_def len map2_map_map)
  with superpose_ok [OF ok] show ?thesis
    by simp
qed

lemma getitem_concatenate:
  "i < length (magnitudes a) \<Longrightarrow> getitem (concatenate a b) i = getitem a i"
  "aunits b = aunits a \<Longrightarrow> getitem (concatenate a b) (length (magnitudes a) + i) = getitem b i"
  by (simp_all add: getitem_def concatenate_def nth_append)

lemma superpose_kernel:
  assumes ok: "kernel_ok k (length (magnitudes z_j)) (length (magnitudes z_i))"
    and call: "\<And>i j. i < length (magnitudes z_i) \<Longrightarrow> j < length (magnitudes z_j) \<Longrightarrow>
                call i (elements z_i ! i) (elements z_j ! j) = k i j"
  shows "superpose call z_j z_i
         = Inr (kernel_trace k (length (magnitudes z_j)) (length (magnitudes z_i)))"
proof -
  have "all_calls_ok call z_j z_i"
    using ok by (simp add: all_calls_ok_def kernel_ok_def call)
  moreover have "trace_sum call z_j z_i
                 = kernel_trace k (length (magnitudes z_j)) (length (magnitudes z_i))"
    by (simp add: trace_sum_def kernel_trace_def call)
  ultimately show ?thesis
    by (simp add: superpose_ok)
qed

text \<open>
  Claim C8. With \<open>M\<close> electrodes and \<open>N\<close> sources, each synthesizer returns the trace whose
  entry \<open>j\<close> is the sum over the sources \<open>i < N\<close> of its kernel (\<open>potential_of_plane\<close>,
  \<open>potential_of_disk\<close>, \<open>potential_of_cylinder\<close>) at electrode \<open>j\<close> and source \<open>i\<close>, in
  volt, together with the density array it was given. This holds when the arrays of the
  sources are long enough and every one of these kernel values exists and can be expressed
  in volt; otherwise the synthesizer raises. Consequently the trace synthesized from two
  source lists one after the other is the entrywise sum of the traces synthesized from
  each list alone. Over the reals the sums are exact.
\<close>

theorem synthesized_trace_superposition:
  "(length (magnitudes z_i) \<le> length (magnitudes C_i)
      \<and> kernel_ok (\<lambda>i j. potential_of_plane (item z_j j) (item z_i i) (item C_i i) sigma)
            (length (magnitudes z_j)) (length (magnitudes z_i)) \<longrightarrow>
      get_lfp_of_planes z_j z_i C_i sigma
        = Inr (kernel_trace
                 (\<lambda>i j. potential_of_plane (item z_j j) (item z_i i) (item C_i i) sigma)
                 (length (magnitudes z_j)) (length (magnitudes z_i)), C_i))
   \<and> (length (magnitudes z_i) \<le> length (magnitudes C_i)
      \<and> length (magnitudes z_i) \<le> length (magnitudes R_i)
      \<and> kernel_ok
            (\<lambda>i j. potential_of_disk (item z_j j) (item z_i i) (item C_i i) (item R_i i) sigma)
            (length (magnitudes z_j)) (length (magnitudes z_i)) \<longrightarrow>
      get_lfp_of_disks z_j z_i C_i R_i sigma
        = Inr (kernel_trace
                 (\<lambda>i j. potential_of_disk (item z_j j) (item z_i i) (item C_i i) (item R_i i)
                          sigma)
                 (length (magnitudes z_j)) (length (magnitudes z_i)), C_i))
   \<and> (length (magnitudes z_i) \<le> length (magnitudes Cv_i)
      \<and> length (magnitudes z_i) \<le> length (magnitudes R_i)
      \<and> length (magnitudes z_i) \<le> length (magnitudes h_i)
      \<and> kernel_ok
            (\<lambda>i j. potential_of_cylinder quad (item z_j j) (item z_i i) (item Cv_i i)
                     (item R_i i) (item h_i i) sigma)
            (length (magnitudes z_j)) (length (magnitudes z_i)) \<longrightarrow>
      get_lfp_of_cylinders quad z_j z_i Cv_i R_i h_i sigma
        = Inr (kernel_trace
                 (\<lambda>i j. potential_of_cylinder quad (item z_j j) (item z_i i) (item Cv_i i)
                          (item R_i i) (item h_i i) sigma)
                 (length (magnitudes z_j)) (length (magnitudes z_i)), Cv_i))
   \<and> (aunits z2 = aunits z1 \<and> aunits C2 = aunits C1
        \<and> length (magnitudes C1) = length (magnitudes z1)
        \<and> get_lfp_of_planes z_j z1 C1 sigma = Inr (phi1, D1)
        \<and> get_lfp_of_planes z_j z2 C2 sigma = Inr (phi2, D2) \<longrightarrow>
      get_lfp_of_planes z_j (concatenate z1 z2) (concatenate C1 C2) sigma
        = Inr (elementwise_add phi1 phi2, concatenate C1 C2))
   \<and> (aunits z2 = aunits z1 \<and> aunits C2 = aunits C1 \<and> aunits R2 = aunits R1
        \<and> length (magnitudes C1) = length (magnitudes z1)
        \<and> length (magnitudes R1) = length (magnitudes z1)
        \<and> get_lfp_of_disks z_j z1 C1 R1 sigma = Inr (psi1, E1)
        \<and> get_lfp_of_disks z_j z2 C2 R2 sigma = Inr (psi2, E2) \<longrightarrow>
      get_lfp_of_disks z_j (concatenate z1 z2) (concatenate C1 C2) (concatenate R1 R2) sigma
        = Inr (elementwise_add psi1 psi2, concatenate C1 C2))
   \<and> (aunits z2 = aunits z1 \<and> aunits Cv2 = aunits Cv1 \<and> aunits R2 = aunits R1
        \<and> aunits h2 = aunits h1
        \<and> length (magnitudes Cv1) = length (magnitudes z1)
        \<and> length (magnitudes R1) = length (magnitudes z1)
        \<and> length (magnitudes h1) = length (magnitudes z1)
        \<and> get_lfp_of_cylinders quad z_j z1 Cv1 R1 h1 sigma = Inr (chi1, F1)
        \<and> get_lfp_of_cylinders quad z_j z2 Cv2 R2 h2 sigma = Inr (chi2, F2) \<longrightarrow>
      get_lfp_of_cylinders quad z_j (concatenate z1 z2) (concatenate Cv1 Cv2)
          (concatenate R1 R2) (concatenate h1 h2) sigma
        = Inr (elementwise_add chi1 chi2, concatenate Cv1 Cv2))"
proof (intro conjI impI; (elim conjE)?)
  assume "length (magnitudes z_i) \<le> length (magnitudes C_i)"
    and "kernel_ok (\<lambda>i j. potential_of_plane (item z_j j) (item z_i i) (item C_i i) sigma)
           (length (magnitudes z_j)) (length (magnitudes z_i))"
  then show "get_lfp_of_planes z_j z_i C_i sigma
        = Inr (kernel_trace
                 (\<lambda>i j. potential_of_plane (item z_j j) (item z_i i) (item C_i i) sigma)
                 (length (magnitudes z_j)) (length (magnitudes z_i)), C_i)"
    by (simp add: get_lfp_of_planes_def superpose_kernel plane_call_def getitem_def item_def
        elements_nth)
next
  assume "length (magnitudes z_i) \<le> length (magnitudes C_i)"
    and "length (magnitudes z_i) \<le> length (magnitudes R_i)"
    and "kernel_ok
           (\<lambda>i j. potential_of_disk (item z_j j) (item z_i i) (item C_i i) (item R_i i) sigma)
           (length (magnitudes z_j)) (length (magnitudes z_i))"
  then show "get_lfp_of_disks z_j z_i C_i R_i sigma
        = Inr (kernel_trace
                 (\<lambda>i j. potential_of_disk (item z_j j) (item z_i i) (item C_i i) (item R_i i)
                          sigma)
                 (length (magnitudes z_j)) (length (magnitudes z_i)), C_i)"
    by (simp add: get_lfp_of_disks_def superpose_kernel disk_call_def getitem_def item_def
        elements_nth)
next
  assume "length (magnitudes z_i) \<le> length (magnitudes Cv_i)"
    and "length (magnitudes z_i) \<le> length (magnitudes R_i)"
    and "length (magnitudes z_i) \<le> length (magnitudes h_i)"
    and "kernel_ok
           (\<lambda>i j. potential_of_cylinder quad (item z_j j) (item z_i i) (item Cv_i i)
                    (item R_i i) (item h_i i) sigma)
           (length (magnitudes z_j)) (length (magnitudes z_i))"
  then show "get_lfp_of_cylinders quad z_j z_i Cv_i R_i h_i sigma
        = Inr (kernel_trace
                 (\<lambda>i j. potential_of_cylinder quad (item z_j j) (item z_i i) (item Cv_i i)
                          (item R_i i) (item h_i i) sigma)
                 (length (magnitudes z_j)) (length (magnitudes z_i)), Cv_i)"
    by (simp add: get_lfp_of_cylinders_def superpose_kernel cylinder_call_def getitem_def
        item_def elements_nth)
next
  assume u: "aunits z2 = aunits z1" "aunits C2 = aunits C1"
    and l: "length (magnitudes C1) = length (magnitudes z1)"
    and r: "get_lfp_of_planes z_j z1 C1 sigma = Inr (phi1, D1)"
      "get_lfp_of_planes z_j z2 C2 sigma = Inr (phi2, D2)"
  from r have s: "superpose (plane_call C1 sigma) z_j z1 = Inr phi1"
      "superpose (plane_call C2 sigma) z_j z2 = Inr phi2"
    by (auto simp: get_lfp_of_planes_def split: sum.splits)
  have "superpose (plane_call (concatenate C1 C2) sigma) z_j (concatenate z1 z2)
        = Inr (elementwise_add phi1 phi2)"
    using u(1) _ _ s
  proof (rule superpose_concatenate)
    show "plane_call (concatenate C1 C2) sigma i zi zj = plane_call C1 sigma i zi zj"
      if "i < length (magnitudes z1)" for i zi zj
      using that l by (simp add: plane_call_def getitem_concatenate)
    show "plane_call (concatenate C1 C2) sigma (length (magnitudes z1) + i) zi zj
          = plane_call C2 sigma i zi zj" for i zi zj
      using u(2) getitem_concatenate(2) [of C2 C1 i] by (simp add: plane_call_def l)
  qed
  then show "get_lfp_of_planes z_j (concatenate z1 z2) (concatenate C1 C2) sigma
        = Inr (elementwise_add phi1 phi2, concatenate C1 C2)"
    by (simp add: get_lfp_of_planes_def)
next
  assume u: "aunits z2 = aunits z1" "aunits C2 = aunits C1" "aunits R2 = aunits R1"
    and l: "length (magnitudes C1) = length (magnitudes z1)"
      "length (magnitudes R1) = length (magnitudes z1)"
    and r: "get_lfp_of_disks z_j z1 C1 R1 sigma = Inr (psi1, E1)"
      "get_lfp_of_disks z_j z2 C2 R2 sigma = Inr (psi2, E2)"
  from r have s: "superpose (disk_call C1 R1 sigma) z_j z1 = Inr psi1"
      "superpose (disk_call C2 R2 sigma) z_j z2 = Inr psi2"
    by (auto simp: get_lfp_of_disks_def split: sum.splits)
  have "superpose (disk_call (concatenate C1 C2) (concatenate R1 R2) sigma) z_j
          (concatenate z1 z2)
        = Inr (elementwise_add psi1 psi2)"
    using u(1) _ _ s
  proof (rule superpose_concatenate)
    show "disk_call (concatenate C1 C2) (concatenate R1 R2) sigma i zi zj
          = disk_call C1 R1 sigma i zi zj"
      if "i < length (magnitudes z1)" for i zi zj
      using that l by (simp add: disk_call_def getitem_concatenate cong: sum.case_cong)
    show "disk_call (concatenate C1 C2) (concatenate R1 R2) sigma
            (length (magnitudes z1) + i) zi zj
          = disk_call C2 R2 sigma i zi zj" for i zi zj
      using u(2,3) getitem_concatenate(2) [of C2 C1 i] getitem_concatenate(2) [of R2 R1 i]
      by (simp add: disk_call_def l cong: sum.case_cong)
  qed
  then show "get_lfp_of_disks z_j (concatenate z1 z2) (concatenate C1 C2) (concatenate R1 R2)
          sigma
        = Inr (elementwise_add psi1 psi2, concatenate C1 C2)"
    by (simp add: get_lfp_of_disks_def)
next
  assume u: "aunits z2 = aunits z1" "aunits Cv2 = aunits Cv1" "aunits R2 = aunits R1"
      "aunits h2 = aunits h1"
    and l: "length (magnitudes Cv1) = length (magnitudes z1)"
      "length (magnitudes R1) = length (magnitudes z1)"
      "length (magnitudes h1) = length (magnitudes z1)"
    and r: "get_lfp_of_cylinders quad z_j z1 Cv1 R1 h1 sigma = Inr (chi1, F1)"
      "get_lfp_of_cylinders quad z_j z2 Cv2 R2 h2 sigma = Inr (chi2, F2)"
  from r have s: "superpose (cylinder_call quad Cv1 R1 h1 sigma) z_j z1 = Inr chi1"
      "superpose (cylinder_call quad Cv2 R2 h2 sigma) z_j z2 = Inr chi2"
    by (auto simp: get_lfp_of_cylinders_def split: sum.splits)
  have "superpose
          (cylinder_call quad (concatenate Cv1 Cv2) (concatenate R1 R2) (concatenate h1 h2) sigma)
          z_j (concatenate z1 z2)
        = Inr (elementwise_add chi1 chi2)"
    using u(1) _ _ s
  proof (rule superpose_concatenate)
    show "cylinder_call quad (concatenate Cv1 Cv2) (concatenate R1 R2) (concatenate h1 h2) sigma
            i zi zj
          = cylinder_call quad Cv1 R1 h1 sigma i zi zj"
      if "i < length (magnitudes z1)" for i zi zj
      using that l by (simp add: cylinder_call_def getitem_concatenate cong: sum.case_cong)
    show "cylinder_call quad (concatenate Cv1 Cv2) (concatenate R1 R2) (concatenate h1 h2) sigma
            (length (magnitudes z1) + i) zi zj
          = cylinder_call quad Cv2 R2 h2 sigma i zi zj" for i zi zj
      using u(2,3,4) getitem_concatenate(2) [of Cv2 Cv1 i] getitem_concatenate(2) [of R2 R1 i]
        getitem_concatenate(2) [of h2 h1 i]
      by (simp add: cylinder_call_def l cong: sum.case_cong)
  qed
  then show "get_lfp_of_cylinders quad z_j (concatenate z1 z2) (concatenate Cv1 Cv2)
          (concatenate R1 R2) (concatenate h1 h2) sigma
        = Inr (elementwise_add chi1 chi2, concatenate Cv1 Cv2)"
    by (simp add: get_lfp_of_cylinders_def)
qed

text \<open>The synthesizers on the small scenario.\<close>

lemmas ex_defs = ex_z_j_def ex_z_1_def ex_z_2_def ex_C_1_def ex_C_2_def ex_Cv_1_def ex_Cv_2_def
  ex_R_def ex_h_def default_sigma_def

lemma volts_Inr: "dims (units q) = dims pq_V \<Longrightarrow> volts (Inr q) = Some (si_value q)"
  by (auto simp: volts_def rescale_def si_value_def pq_V_def)

lemma sqrt_9_25: "sqrt 9 = 3" "sqrt 25 = 5"
  using real_sqrt_abs [of 3] real_sqrt_abs [of 5] by simp_all

lemma ex_planes_ok_1:
  "kernel_ok (\<lambda>i j. potential_of_plane (item ex_z_j j) (item ex_z_1 i) (item ex_C_1 i) default_sigma)
     (length (magnitudes ex_z_j)) (length (magnitudes ex_z_1))"
  by (simp add: kernel_ok_def item_def ex_defs plane_same_units volts_Inr si_value_def
      unit_defs All_less_Suc del: not_None_eq)

lemma ex_planes_trace_1:
  "kernel_trace
     (\<lambda>i j. potential_of_plane (item ex_z_j j) (item ex_z_1 i) (item ex_C_1 i) default_sigma)
     (length (magnitudes ex_z_j)) (length (magnitudes ex_z_1))
   = \<lparr>magnitudes = [0, - (1 / 150)], aunits = pq_V\<rparr>"
  by (simp add: kernel_trace_def item_def ex_defs plane_same_units volts_Inr si_value_def
      unit_defs upt_rec)

lemma ex_planes_ok_2:
  "kernel_ok (\<lambda>i j. potential_of_plane (item ex_z_j j) (item ex_z_2 i) (item ex_C_2 i) default_sigma)
     (length (magnitudes ex_z_j)) (length (magnitudes ex_z_2))"
  by (simp add: kernel_ok_def item_def ex_defs plane_same_units volts_Inr si_value_def
      unit_defs All_less_Suc del: not_None_eq)

lemma ex_planes_trace_2:
  "kernel_trace
     (\<lambda>i j. potential_of_plane (item ex_z_j j) (item ex_z_2 i) (item ex_C_2 i) default_sigma)
     (length (magnitudes ex_z_j)) (length (magnitudes ex_z_2))
   = \<lparr>magnitudes = [1 / 150, 0], aunits = pq_V\<rparr>"
  by (simp add: kernel_trace_def item_def ex_defs plane_same_units volts_Inr si_value_def
      unit_defs upt_rec)

lemma ex_disks_ok_1:
  "kernel_ok
     (\<lambda>i j. potential_of_disk (item ex_z_j j) (item ex_z_1 i) (item ex_C_1 i) (item ex_R i)
              default_sigma)
     (length (magnitudes ex_z_j)) (length (magnitudes ex_z_1))"
  by (simp add: kernel_ok_def item_def ex_defs disk_same_units volts_Inr si_value_def
      unit_defs All_less_Suc del: not_None_eq)

lemma ex_disks_trace_1:
  "kernel_trace
     (\<lambda>i j. potential_of_disk (item ex_z_j j) (item ex_z_1 i) (item ex_C_1 i) (item ex_R i)
              default_sigma)
     (length (magnitudes ex_z_j)) (length (magnitudes ex_z_1))
   = \<lparr>magnitudes = [1 / 200, 1 / 600], aunits = pq_V\<rparr>"
  by (simp add: kernel_trace_def item_def ex_defs disk_same_units volts_Inr si_value_def
      unit_defs upt_rec sqrt_9_25)

lemma ex_disks_ok_2:
  "kernel_ok
     (\<lambda>i j. potential_of_disk (item ex_z_j j) (item ex_z_2 i) (item ex_C_2 i) (item ex_R i)
              default_sigma)
     (length (magnitudes ex_z_j)) (length (magnitudes ex_z_2))"
  by (simp add: kernel_ok_def item_def ex_defs disk_same_units volts_Inr si_value_def
      unit_defs All_less_Suc del: not_None_eq)

lemma ex_disks_trace_2:
  "kernel_trace
     (\<lambda>i j. potential_of_disk (item ex_z_j j) (item ex_z_2 i) (item ex_C_2 i) (item ex_R i)
              default_sigma)
     (length (magnitudes ex_z_j)) (length (magnitudes ex_z_2))
   = \<lparr>magnitudes = [- (1 / 600), - (1 / 200)], aunits = pq_V\<rparr>"
  by (simp add: kernel_trace_def item_def ex_defs disk_same_units volts_Inr si_value_def
      unit_defs upt_rec sqrt_9_25)

lemma ex_cylinders_ok_1:
  "kernel_ok
     (\<lambda>i j. potential_of_cylinder (midpoint_rule 0) (item ex_z_j j) (item ex_z_1 i)
              (item ex_Cv_1 i) (item ex_R i) (item ex_h i) default_sigma)
     (length (magnitudes ex_z_j)) (length (magnitudes ex_z_1))"
  by (simp add: kernel_ok_def item_def ex_defs cylinder_same_units volts_Inr si_value_def
      unit_defs All_less_Suc del: not_None_eq)

lemma ex_cylinders_trace_1:
  "kernel_trace
     (\<lambda>i j. potential_of_cylinder (midpoint_rule 0) (item ex_z_j j) (item ex_z_1 i)
              (item ex_Cv_1 i) (item ex_R i) (item ex_h i) default_sigma)
     (length (magnitudes ex_z_j)) (length (magnitudes ex_z_1))
   = \<lparr>magnitudes = [1 / 2000000, 1 / 6000000], aunits = pq_V\<rparr>"
  by (simp add: kernel_trace_def item_def ex_defs cylinder_same_units volts_Inr si_value_def
      unit_defs upt_rec sqrt_9_25 midpoint_rule_def power_divide)

lemma ex_cylinders_ok_2:
  "kernel_ok
     (\<lambda>i j. potential_of_cylinder (midpoint_rule 0) (item ex_z_j j) (item ex_z_2 i)
              (item ex_Cv_2 i) (item ex_R i) (item ex_h i) default_sigma)
     (length (magnitudes ex_z_j)) (length (magnitudes ex_z_2))"
  by (simp add: kernel_ok_def item_def ex_defs cylinder_same_units volts_Inr si_value_def
      unit_defs All_less_Suc del: not_None_eq)

lemma ex_cylinders_trace_2:
  "kernel_trace
     (\<lambda>i j. potential_of_cylinder (midpoint_rule 0) (item ex_z_j j) (item ex_z_2 i)
              (item ex_Cv_2 i) (item ex_R i) (item ex_h i) default_sigma)
     (length (magnitudes ex_z_j)) (length (magnitudes ex_z_2))
   = \<lparr>magnitudes = [- (1 / 6000000), - (1 / 2000000)], aunits = pq_V\<rparr>"
  by (simp add: kernel_trace_def item_def ex_defs cylinder_same_units volts_Inr si_value_def
      unit_defs upt_rec sqrt_9_25 midpoint_rule_def power_divide)

theorem synthesized_trace_superposition_witness:
  "length (magnitudes ex_z_1) \<le> length (magnitudes ex_C_1)
   \<and> length (magnitudes ex_z_1) \<le> length (magnitudes ex_Cv_1)
   \<and> length (magnitudes ex_z_1) \<le> length (magnitudes ex_R)
   \<and> length (magnitudes ex_z_1) \<le> length (magnitudes ex_h)
   \<and> kernel_ok
     (\<lambda>i j. potential_of_plane (item ex_z_j j) (item ex_z_1 i) (item ex_C_1 i) default_sigma)
     (length (magnitudes ex_z_j)) (length (magnitudes ex_z_1))
   \<and> kernel_ok
     (\<lambda>i j. potential_of_disk (item ex_z_j j) (item ex_z_1 i) (item ex_C_1 i) (item ex_R i)
              default_sigma)
     (length (magnitudes ex_z_j)) (length (magnitudes ex_z_1))
   \<and> kernel_ok
     (\<lambda>i j. potential_of_cylinder (midpoint_rule 0) (item ex_z_j j) (item ex_z_1 i)
              (item ex_Cv_1 i) (item ex_R i) (item ex_h i) default_sigma)
     (length (magnitudes ex_z_j)) (length (magnitudes ex_z_1))
   \<and> get_lfp_of_planes ex_z_j ex_z_1 ex_C_1 default_sigma = Inr (\<lparr>magnitudes = [0, - (1 / 150)], aunits = pq_V\<rparr>, ex_C_1)
   \<and> get_lfp_of_disks ex_z_j ex_z_1 ex_C_1 ex_R default_sigma = Inr (\<lparr>magnitudes = [1 / 200, 1 / 600], aunits = pq_V\<rparr>, ex_C_1)
   \<and> get_lfp_of_cylinders (midpoint_rule 0) ex_z_j ex_z_1 ex_Cv_1 ex_R ex_h default_sigma
       = Inr (\<lparr>magnitudes = [1 / 2000000, 1 / 6000000], aunits = pq_V\<rparr>, ex_Cv_1)
   \<and> aunits ex_z_2 = aunits ex_z_1 \<and> aunits ex_C_2 = aunits ex_C_1
   \<and> aunits ex_Cv_2 = aunits ex_Cv_1 \<and> aunits ex_R = aunits ex_R \<and> aunits ex_h = aunits ex_h
   \<and> length (magnitudes ex_C_1) = length (magnitudes ex_z_1)
   \<and> length (magnitudes ex_Cv_1) = length (magnitudes ex_z_1)
   \<and> length (magnitudes ex_R) = length (magnitudes ex_z_1)
   \<and> length (magnitudes ex_h) = length (magnitudes ex_z_1)
   \<and> get_lfp_of_planes ex_z_j ex_z_2 ex_C_2 default_sigma = Inr (\<lparr>magnitudes = [1 / 150, 0], aunits = pq_V\<rparr>, ex_C_2)
   \<and> get_lfp_of_disks ex_z_j ex_z_2 ex_C_2 ex_R default_sigma = Inr (\<lparr>magnitudes = [- (1 / 600), - (1 / 200)], aunits = pq_V\<rparr>, ex_C_2)
   \<and> get_lfp_of_cylinders (midpoint_rule 0) ex_z_j ex_z_2 ex_Cv_2 ex_R ex_h default_sigma
       = Inr (\<lparr>magnitudes = [- (1 / 6000000), - (1 / 2000000)], aunits = pq_V\<rparr>, ex_Cv_2)
   \<and> get_lfp_of_planes ex_z_j (concatenate ex_z_1 ex_z_2) (concatenate ex_C_1 ex_C_2)
         default_sigma
       = Inr (\<lparr>magnitudes = [1 / 150, - (1 / 150)], aunits = pq_V\<rparr>, concatenate ex_C_1 ex_C_2)
   \<and> get_lfp_of_disks ex_z_j (concatenate ex_z_1 ex_z_2) (concatenate ex_C_1 ex_C_2)
         (concatenate ex_R ex_R) default_sigma
       = Inr (\<lparr>magnitudes = [1 / 300, - (1 / 300)], aunits = pq_V\<rparr>, concatenate ex_C_1 ex_C_2)
   \<and> get_lfp_of_cylinders (midpoint_rule 0) ex_z_j (concatenate ex_z_1 ex_z_2)
         (concatenate ex_Cv_1 ex_Cv_2) (concatenate ex_R ex_R) (concatenate ex_h ex_h)
         default_sigma
       = Inr (\<lparr>magnitudes = [1 / 3000000, - (1 / 3000000)], aunits = pq_V\<rparr>, concatenate ex_Cv_1 ex_Cv_2)"
proof -
  let ?s = default_sigma and ?q = "midpoint_rule 0"
  let ?P1 = "\<lparr>magnitudes = [0, - (1 / 150)], aunits = pq_V\<rparr>"
  let ?P2 = "\<lparr>magnitudes = [1 / 150, 0], aunits = pq_V\<rparr>"
  let ?P12 = "\<lparr>magnitudes = [1 / 150, - (1 / 150)], aunits = pq_V\<rparr>"
  let ?D1 = "\<lparr>magnitudes = [1 / 200, 1 / 600], aunits = pq_V\<rparr>"
  let ?D2 = "\<lparr>magnitudes = [- (1 / 600), - (1 / 200)], aunits = pq_V\<rparr>"
  let ?D12 = "\<lparr>magnitudes = [1 / 300, - (1 / 300)], aunits = pq_V\<rparr>"
  let ?C1 = "\<lparr>magnitudes = [1 / 2000000, 1 / 6000000], aunits = pq_V\<rparr>"
  let ?C2 = "\<lparr>magnitudes = [- (1 / 6000000), - (1 / 2000000)], aunits = pq_V\<rparr>"
  let ?C12 = "\<lparr>magnitudes = [1 / 3000000, - (1 / 3000000)], aunits = pq_V\<rparr>"
  have u: "aunits ex_z_2 = aunits ex_z_1" "aunits ex_C_2 = aunits ex_C_1"
      "aunits ex_Cv_2 = aunits ex_Cv_1"
      "length (magnitudes ex_C_1) = length (magnitudes ex_z_1)"
      "length (magnitudes ex_Cv_1) = length (magnitudes ex_z_1)"
      "length (magnitudes ex_R) = length (magnitudes ex_z_1)"
      "length (magnitudes ex_h) = length (magnitudes ex_z_1)"
    by (simp_all add: ex_defs)
  have l: "length (magnitudes ex_z_2) \<le> length (magnitudes ex_C_2)"
      "length (magnitudes ex_z_2) \<le> length (magnitudes ex_Cv_2)"
      "length (magnitudes ex_z_2) \<le> length (magnitudes ex_R)"
      "length (magnitudes ex_z_2) \<le> length (magnitudes ex_h)"
    by (simp_all add: ex_defs)
  have first: "get_lfp_of_planes ex_z_j ex_z_1 ex_C_1 ?s = Inr (?P1, ex_C_1)"
      "get_lfp_of_disks ex_z_j ex_z_1 ex_C_1 ex_R ?s = Inr (?D1, ex_C_1)"
      "get_lfp_of_cylinders ?q ex_z_j ex_z_1 ex_Cv_1 ex_R ex_h ?s = Inr (?C1, ex_Cv_1)"
    using u ex_planes_ok_1 ex_disks_ok_1 ex_cylinders_ok_1
      synthesized_trace_superposition [where z_j = ex_z_j and z_i = ex_z_1 and C_i = ex_C_1
        and sigma = ?s and R_i = ex_R and quad = ?q and Cv_i = ex_Cv_1 and h_i = ex_h]
    by (simp_all add: ex_planes_trace_1 ex_disks_trace_1 ex_cylinders_trace_1)
  have second: "get_lfp_of_planes ex_z_j ex_z_2 ex_C_2 ?s = Inr (?P2, ex_C_2)"
      "get_lfp_of_disks ex_z_j ex_z_2 ex_C_2 ex_R ?s = Inr (?D2, ex_C_2)"
      "get_lfp_of_cylinders ?q ex_z_j ex_z_2 ex_Cv_2 ex_R ex_h ?s = Inr (?C2, ex_Cv_2)"
    using l ex_planes_ok_2 ex_disks_ok_2 ex_cylinders_ok_2
      synthesized_trace_superposition [where z_j = ex_z_j and z_i = ex_z_2 and C_i = ex_C_2
        and sigma = ?s and R_i = ex_R and quad = ?q and Cv_i = ex_Cv_2 and h_i = ex_h]
    by (simp_all add: ex_planes_trace_2 ex_disks_trace_2 ex_cylinders_trace_2)
  have both: "get_lfp_of_planes ex_z_j (concatenate ex_z_1 ex_z_2) (concatenate ex_C_1 ex_C_2) ?s
        = Inr (elementwise_add ?P1 ?P2, concatenate ex_C_1 ex_C_2)"
      "get_lfp_of_disks ex_z_j (concatenate ex_z_1 ex_z_2) (concatenate ex_C_1 ex_C_2)
         (concatenate ex_R ex_R) ?s
        = Inr (elementwise_add ?D1 ?D2, concatenate ex_C_1 ex_C_2)"
      "get_lfp_of_cylinders ?q ex_z_j (concatenate ex_z_1 ex_z_2)
         (concatenate ex_Cv_1 ex_Cv_2) (concatenate ex_R ex_R) (concatenate ex_h ex_h) ?s
        = Inr (elementwise_add ?C1 ?C2, concatenate ex_Cv_1 ex_Cv_2)"
    using u first second
      synthesized_trace_superposition [where z_j = ex_z_j and sigma = ?s and quad = ?q
        and ?z1.0 = ex_z_1 and ?z2.0 = ex_z_2 and ?C1.0 = ex_C_1 and ?C2.0 = ex_C_2
        and ?R1.0 = ex_R and ?R2.0 = ex_R and ?h1.0 = ex_h and ?h2.0 = ex_h
        and ?Cv1.0 = ex_Cv_1 and ?Cv2.0 = ex_Cv_2
        and ?phi1.0 = ?P1 and ?phi2.0 = ?P2
        and ?D1.0 = ex_C_1 and ?D2.0 = ex_C_2
        and ?psi1.0 = ?D1 and ?psi2.0 = ?D2
        and ?E1.0 = ex_C_1 and ?E2.0 = ex_C_2
        and ?chi1.0 = ?C1 and ?chi2.0 = ?C2
        and ?F1.0 = ex_Cv_1 and ?F2.0 = ex_Cv_2]
    by simp_all
  have sums: "elementwise_add ?P1 ?P2 = ?P12"
      "elementwise_add ?D1 ?D2 = ?D12"
      "elementwise_add ?C1 ?C2 = ?C12"
    by (simp_all add: elementwise_add_def)
  show ?thesis
    using u ex_planes_ok_1 ex_disks_ok_1 ex_cylinders_ok_1 first second both
    by (simp add: sums)
qed

end
